theory Spec2Isabelle
  imports Complex_Main "HOL-Library.AList"
begin

section \<open>JavaScript values\<close>

text \<open>
  The services are JavaScript programs over JSON request bodies and rows of a relational
  store. A value is one of the JSON kinds, \<open>undefined\<close>, or a \<open>Date\<close>. A number is
  \<open>NaN\<close>, an infinity or a finite value; the two zeros are not told apart, since no
  handler can tell them apart (both are falsy and both are \<open>=== 0\<close>).
\<close>

datatype jsnum = NaN | PInf | NInf | Fin rat

datatype jsdate = InvalidDate | Date int

datatype jsval =
    JUndefined
  | JNull
  | JBool bool
  | JNum jsnum
  | JStr string
  | JDate jsdate
  | JArr "jsval list"
  | JObj "(string \<times> jsval) list"

type_synonym jsobj = "(string \<times> jsval) list"

text \<open>
  An object is the list of its own properties, in order. A request body is such an object:
  the one the body parser (\<open>express.json()\<close>, or the form parser of the upload
  middleware) hands to the handler. Reading a property: an absent key reads as
  \<open>undefined\<close>.
\<close>

definition js_get :: "jsobj \<Rightarrow> string \<Rightarrow> jsval" where
  "js_get obj k = (case map_of obj k of None \<Rightarrow> JUndefined | Some v \<Rightarrow> v)"

text \<open>
  \<open>v.k\<close> on a value that is not \<open>null\<close> or \<open>undefined\<close>: only a plain object has
  the keys the handlers read. Every caller tests the value for truthiness first.
\<close>

fun member :: "jsval \<Rightarrow> string \<Rightarrow> jsval" where
  "member (JObj obj) k = js_get obj k"
| "member _ k = JUndefined"

text \<open>\<open>ToBoolean\<close>: what \<open>!v\<close>, \<open>v ? a : b\<close> and \<open>v || w\<close> test.\<close>

fun truthy :: "jsval \<Rightarrow> bool" where
  "truthy JUndefined = False"
| "truthy JNull = False"
| "truthy (JBool b) = b"
| "truthy (JNum n) = (n \<noteq> NaN \<and> n \<noteq> Fin 0)"
| "truthy (JStr s) = (s \<noteq> [])"
| "truthy (JDate d) = True"
| "truthy (JArr xs) = True"
| "truthy (JObj obj) = True"

definition js_or :: "jsval \<Rightarrow> jsval \<Rightarrow> jsval" where
  "js_or v w = (if truthy v then v else w)"

fun typeof :: "jsval \<Rightarrow> string" where
  "typeof JUndefined = ''undefined''"
| "typeof JNull = ''object''"
| "typeof (JBool b) = ''boolean''"
| "typeof (JNum n) = ''number''"
| "typeof (JStr s) = ''string''"
| "typeof (JDate d) = ''object''"
| "typeof (JArr xs) = ''object''"
| "typeof (JObj obj) = ''object''"

fun isArray :: "jsval \<Rightarrow> bool" where
  "isArray (JArr xs) = True"
| "isArray _ = False"

fun array_length :: "jsval \<Rightarrow> nat" where
  "array_length (JArr xs) = length xs"
| "array_length _ = 0"

section \<open>The runtime and the libraries\<close>

text \<open>
  What the handlers call and the repository does not define is a parameter of the model:
  the JSON codec, the part of \<open>Number\<close> that needs floating-point rounding, the \<open>Date\<close>
  constructor and the clock, the token library, and the store's own reading of texts that
  no version-independent rule settles.
\<close>

text \<open>What a \<open>catch\<close> block receives: the store's error code, if it has one, and a message.\<close>

datatype js_error = Error (err_code: "string option") (err_message: string)

definition code_val :: "js_error \<Rightarrow> jsval" where
  "code_val e = (case err_code e of None \<Rightarrow> JUndefined | Some c \<Rightarrow> JStr c)"

datatype jwt_payload = PayloadObject jsobj | PayloadString string

datatype jwt_error = TokenExpiredError | NotBeforeError | JsonWebTokenError string

record runtime =
  JSON_parse :: "string \<Rightarrow> jsval option"
  JSON_stringify :: "jsval \<Rightarrow> string"
  StringToNumber_other :: "string \<Rightarrow> jsnum"
  ObjectToNumber :: "jsval \<Rightarrow> jsnum"
  new_Date :: "jsval \<Rightarrow> jsdate"
  Date_now :: jsdate
  env_JWT_SECRET :: "string option"
  jwt_verify :: "string option \<Rightarrow> string \<Rightarrow> jwt_error + jwt_payload"
  jwt_sign :: "jsobj \<Rightarrow> string \<Rightarrow> string \<Rightarrow> string"
  pg_jsonb :: "string \<Rightarrow> js_error + jsval"
  pg_same :: "jsval \<Rightarrow> jsval \<Rightarrow> bool"
  pg_order :: "jsval \<Rightarrow> rat"
  ToString :: "jsval \<Rightarrow> string"
  String_trim :: "string \<Rightarrow> string"
  pg_int4_other :: "jsval \<Rightarrow> js_error + int option"
  pg_timestamp_other :: "int \<Rightarrow> js_error option"
  pg_numeric_inf :: "js_error option"

text \<open>
  \<open>Number(v)\<close>. A string of decimal digits below \<open>2^53\<close> is read exactly and the empty
  string is \<open>0\<close>; every other string (signs, blanks, fractions, exponents, other radixes,
  longer digit strings) is left to the runtime, and so is an array or an object.
\<close>

definition is_digit :: "char \<Rightarrow> bool" where
  "is_digit c = (c \<in> set ''0123456789'')"

definition digit_val :: "char \<Rightarrow> nat" where
  "digit_val c = of_char c - 48"

definition dec_val :: "string \<Rightarrow> nat" where
  "dec_val s = foldl (\<lambda>n c. 10 * n + digit_val c) 0 s"

definition StringToNumber :: "runtime \<Rightarrow> string \<Rightarrow> jsnum" where
  "StringToNumber rt s =
     (if s = [] then Fin 0
      else if list_all is_digit s \<and> dec_val s \<le> 2 ^ 53 then Fin (of_nat (dec_val s))
      else StringToNumber_other rt s)"

fun Number :: "runtime \<Rightarrow> jsval \<Rightarrow> jsnum" where
  "Number rt JUndefined = NaN"
| "Number rt JNull = Fin 0"
| "Number rt (JBool b) = (if b then Fin 1 else Fin 0)"
| "Number rt (JNum n) = n"
| "Number rt (JStr s) = StringToNumber rt s"
| "Number rt (JDate d) = (case d of InvalidDate \<Rightarrow> NaN | Date t \<Rightarrow> Fin (of_int t))"
| "Number rt (JArr xs) = ObjectToNumber rt (JArr xs)"
| "Number rt (JObj obj) = ObjectToNumber rt (JObj obj)"

section \<open>Responses, errors and the store\<close>

record response =
  res_status :: nat
  res_body :: jsval

text \<open>\<open>res.status(n).json(v)\<close>; \<open>res.json(v)\<close> answers with status 200.\<close>

definition json :: "nat \<Rightarrow> jsval \<Rightarrow> response" where
  "json n v = \<lparr>res_status = n, res_body = v\<rparr>"

text \<open>
  Modelled from the spec: the module \<open>./db\<close> (the connection pool) and the relational
  store behind it, which the repository requires and does not contain. The store is
  ``a relational store reachable over a query interface'': one table per entity, with the
  columns, keys and sequences of the \<open>CREATE TABLE\<close> statements the services run at
  start. A row is the object the driver returns, column name to value; a column keeps the
  value the handler passed for it. The store raises an error of its own for a violated
  \<open>UNIQUE\<close> constraint, for a parameter that an \<open>INTEGER\<close> column cannot read, and for an
  invalid date sent to the \<open>TIMESTAMP\<close> column. Every other failure of a statement (a
  missing relation, a lost connection) is outside the tables: the \<open>n\<close>-th \<open>pool.query\<close>
  call of a request throws \<open>e\<close> when the request's fault assignment gives \<open>Some e\<close>
  for \<open>n\<close>, and the statement then changes nothing.
\<close>

record store =
  tbl_usuario :: "jsobj list"
  seq_usuario_id :: int
  tbl_producto :: "jsobj list"
  seq_producto_id :: int
  tbl_categoria :: "jsobj list"
  seq_categoria_id :: int
  tbl_boleta :: "jsobj list"
  seq_boleta_id :: int
  seq_boleta_numero_compra :: int

type_synonym faults = "nat \<Rightarrow> js_error option"

definition no_fault :: faults where
  "no_fault = (\<lambda>n. None)"

definition JInt :: "int \<Rightarrow> jsval" where
  "JInt i = JNum (Fin (of_int i))"

text \<open>
  The comparison \<open>column = $n\<close> of a \<open>WHERE\<close> clause or of a \<open>UNIQUE\<close> constraint:
  never true of \<open>NULL\<close>, true of a value and itself, and otherwise the store's reading
  of the parameter for the column's type (the text \<open>"5"\<close> against the integer 5).
\<close>

definition nullish :: "jsval \<Rightarrow> bool" where
  "nullish v = (v = JUndefined \<or> v = JNull)"

definition pg_eq :: "runtime \<Rightarrow> jsval \<Rightarrow> jsval \<Rightarrow> bool" where
  "pg_eq rt col param = (\<not> nullish col \<and> \<not> nullish param \<and> (col = param \<or> pg_same rt col param))"

text \<open>
  How the store reads a parameter for an \<open>INTEGER\<close> (or \<open>SERIAL\<close>) column, from the text
  the driver sends for it. \<open>null\<close> and \<open>undefined\<close> are \<open>NULL\<close>. A string of decimal
  digits is the integer it writes when that fits 32 bits, and out of range (\<open>22003\<close>)
  otherwise; a string with no digit in it (\<open>"abc"\<close>, the empty string) is no integer
  (\<open>22P02\<close>). A number is sent as its decimal text: an integer value in range reads as
  itself, a larger one is out of range or, from \<open>1e21\<close> on, in exponent form and no
  integer; a fraction, \<open>NaN\<close> and the infinities are no integer. A boolean is sent as
  \<open>true\<close> or \<open>false\<close>. Every other text (signs, blanks, other radixes; dates, arrays,
  objects) is left to the store.
\<close>

definition invalid_integer :: js_error where
  "invalid_integer = Error (Some ''22P02'') ''invalid input syntax for type integer''"

definition integer_out_of_range :: js_error where
  "integer_out_of_range = Error (Some ''22003'') ''value is out of range for type integer''"

definition pg_int4 :: "runtime \<Rightarrow> jsval \<Rightarrow> js_error + int option" where
  "pg_int4 rt v =
     (case v of
        JUndefined \<Rightarrow> Inr None
      | JNull \<Rightarrow> Inr None
      | JBool b \<Rightarrow> Inl invalid_integer
      | JNum n \<Rightarrow>
          (case n of
             Fin q \<Rightarrow>
               if of_int \<lfloor>q\<rfloor> = q
               then (if - 2147483648 \<le> \<lfloor>q\<rfloor> \<and> \<lfloor>q\<rfloor> \<le> 2147483647 then Inr (Some \<lfloor>q\<rfloor>)
                     else if \<bar>q\<bar> < 10 ^ 21 then Inl integer_out_of_range
                     else Inl invalid_integer)
               else Inl invalid_integer
           | _ \<Rightarrow> Inl invalid_integer)
      | JStr s \<Rightarrow>
          if s \<noteq> [] \<and> list_all is_digit s
          then (if int (dec_val s) \<le> 2147483647 then Inr (Some (int (dec_val s)))
                else Inl integer_out_of_range)
          else if \<not> list_ex is_digit s then Inl invalid_integer
          else pg_int4_other rt v
      | _ \<Rightarrow> pg_int4_other rt v)"

text \<open>
  \<open>column = $n\<close> on an integer column, the parameter read: \<open>NULL\<close> equals nothing, an
  integer equals the rows that hold it.
\<close>

definition int_is :: "int option \<Rightarrow> jsval \<Rightarrow> bool" where
  "int_is key v = (case key of None \<Rightarrow> False | Some z \<Rightarrow> v = JInt z)"

section \<open>Receipts service (index\_boletas.js)\<close>

text \<open>
  How the store reads a date for a \<open>TIMESTAMP\<close> column and a number for a \<open>NUMERIC\<close>
  column; \<open>None\<close> is acceptance. An invalid date is no timestamp (\<open>22007\<close>); a date from
  1970 to the end of year 9999 (in milliseconds since the epoch) is one; the range of the
  other dates depends on the server and its time zone. Every finite number and \<open>NaN\<close> are
  numerics; whether the infinities are depends on the server's version.
\<close>

definition invalid_timestamp :: js_error where
  "invalid_timestamp = Error (Some ''22007'') ''invalid input syntax for type timestamp''"

definition pg_timestamp :: "runtime \<Rightarrow> jsdate \<Rightarrow> js_error option" where
  "pg_timestamp rt d =
     (case d of
        InvalidDate \<Rightarrow> Some invalid_timestamp
      | Date t \<Rightarrow> if 0 \<le> t \<and> t < 253402300800000 then None else pg_timestamp_other rt t)"

definition pg_numeric :: "runtime \<Rightarrow> jsnum \<Rightarrow> js_error option" where
  "pg_numeric rt n = (case n of Fin q \<Rightarrow> None | NaN \<Rightarrow> None | _ \<Rightarrow> pg_numeric_inf rt)"

text \<open>
  \<open>INSERT INTO boleta (fecha, comprador, productos, total, user_id)
  VALUES ($1, $2::jsonb, $3::jsonb, $4, $5) RETURNING *\<close>: \<open>id\<close> and \<open>numero_compra\<close>
  are \<open>SERIAL\<close> columns, the two documents are read back from their JSON text. The store
  reads the five parameters in their order, each for the type of its column (\<open>user_id\<close> is
  an \<open>INT\<close> column), and raises at the first it cannot read. A statement that raises
  inserts nothing.
\<close>

definition insert_boleta ::
  "runtime \<Rightarrow> jsdate \<Rightarrow> string \<Rightarrow> string \<Rightarrow> jsnum \<Rightarrow> jsval \<Rightarrow> store \<Rightarrow> js_error + jsobj \<times> store" where
  "insert_boleta rt fechaVal compradorJson productosJson totalNum uid st =
     (case pg_timestamp rt fechaVal of
        Some error \<Rightarrow> Inl error
      | None \<Rightarrow>
     (case pg_jsonb rt compradorJson of
        Inl error \<Rightarrow> Inl error
      | Inr comprador \<Rightarrow>
     (case pg_jsonb rt productosJson of
        Inl error \<Rightarrow> Inl error
      | Inr productos \<Rightarrow>
     (case pg_numeric rt totalNum of
        Some error \<Rightarrow> Inl error
      | None \<Rightarrow>
     (case pg_int4 rt uid of
        Inl error \<Rightarrow> Inl error
      | Inr key \<Rightarrow>
          (let row = [(''id'', JInt (seq_boleta_id st)),
                      (''numero_compra'', JInt (seq_boleta_numero_compra st)),
                      (''fecha'', JDate fechaVal),
                      (''comprador'', comprador),
                      (''productos'', productos),
                      (''total'', JNum totalNum),
                      (''user_id'', case key of None \<Rightarrow> JNull | Some z \<Rightarrow> JInt z)]
           in Inr (row, st\<lparr>tbl_boleta := tbl_boleta st @ [row],
                             seq_boleta_id := seq_boleta_id st + 1,
                             seq_boleta_numero_compra := seq_boleta_numero_compra st + 1\<rparr>)))))))"

text \<open>
  \<open>const fechaVal = fecha ? new Date(fecha) : new Date()\<close>,
  \<open>const totalNum = total !== undefined ? Number(total) : 0\<close> and
  \<open>const uid = user_id !== undefined && user_id !== null ? (Number(user_id) || null) : null\<close>.
\<close>

definition fechaVal :: "runtime \<Rightarrow> jsval \<Rightarrow> jsdate" where
  "fechaVal rt fecha = (if truthy fecha then new_Date rt fecha else Date_now rt)"

definition totalNum :: "runtime \<Rightarrow> jsval \<Rightarrow> jsnum" where
  "totalNum rt v = (if v \<noteq> JUndefined then Number rt v else Fin 0)"

definition uid :: "runtime \<Rightarrow> jsval \<Rightarrow> jsval" where
  "uid rt user_id =
     (if user_id \<noteq> JUndefined \<and> user_id \<noteq> JNull
      then js_or (JNum (Number rt user_id)) JNull else JNull)"

text \<open>
  The block \<open>if (typeof x === "string") { try { x = JSON.parse(x) } catch (e) { return 400 } }\<close>
  that the handler runs on \<open>comprador\<close> and on \<open>productos\<close>: \<open>None\<close> is the
  \<open>catch\<close>.
\<close>

definition parse_if_string :: "runtime \<Rightarrow> jsval \<Rightarrow> jsval option" where
  "parse_if_string rt x = (case x of JStr s \<Rightarrow> JSON_parse rt s | _ \<Rightarrow> Some x)"

definition message :: "string \<Rightarrow> jsval" where
  "message m = JObj [(''message'', JStr m)]"

definition post_boletas_catch :: "js_error \<Rightarrow> response" where
  "post_boletas_catch error =
     (if err_code error = Some ''22P02''
      then json 400 (JObj [(''error'', JStr (''JSON inv'' @ [CHR 0xC3, CHR 0xA1] @ ''lido para comprador o productos'')),
                           (''code'', code_val error),
                           (''detail'', JStr (err_message error))])
      else json 500 (JObj [(''error'', JStr ''Error al crear boleta''),
                           (''message'', JStr (err_message error)),
                           (''code'', code_val error)]))"

definition post_boletas :: "runtime \<Rightarrow> faults \<Rightarrow> jsobj \<Rightarrow> store \<Rightarrow> response \<times> store" where
  "post_boletas rt flt body st =
     (let fecha = js_get body ''fecha'';
          total = js_get body ''total'';
          user_id = js_get body ''user_id''
      in case parse_if_string rt (js_get body ''comprador'') of
           None \<Rightarrow> (json 400 (message (''comprador debe ser JSON v'' @ [CHR 0xC3, CHR 0xA1] @ ''lido'')), st)
         | Some comprador \<Rightarrow>
       (case parse_if_string rt (js_get body ''productos'') of
           None \<Rightarrow> (json 400 (message (''productos debe ser JSON v'' @ [CHR 0xC3, CHR 0xA1] @ ''lido'')), st)
         | Some productos \<Rightarrow>
       if \<not> truthy productos \<or> \<not> isArray productos \<or> array_length productos = 0
       then (json 400 (message (''Productos requeridos (array no vac'' @ [CHR 0xC3, CHR 0xAD] @ ''o)'')), st)
       else if \<not> truthy comprador \<or> typeof comprador \<noteq> ''object''
               \<or> \<not> truthy (member comprador ''nombre'') \<or> \<not> truthy (member comprador ''correo'')
       then (json 400 (message ''Datos del comprador requeridos (nombre y correo)''), st)
       else
         let compradorJson = JSON_stringify rt comprador;
             productosJson = JSON_stringify rt productos
         in (case flt 0 of
               Some error \<Rightarrow> (post_boletas_catch error, st)
             | None \<Rightarrow>
                 (case insert_boleta rt (fechaVal rt fecha) compradorJson productosJson
                         (totalNum rt total) (uid rt user_id) st of
                    Inl error \<Rightarrow> (post_boletas_catch error, st)
                  | Inr (boleta, st') \<Rightarrow>
                      (json 201 (JObj (AList.update ''total''
                         (js_or (JNum (Number rt (js_get boleta ''total''))) (JNum (Fin 0))) boleta)), st')))))"

text \<open>
  \<open>DELETE /boletas/:userId\<close>: \<open>DELETE FROM boleta WHERE user_id=$1\<close>, the parameter
  being the number the path segment reads as, or the segment itself
  (\<open>Number.isNaN(id) ? req.params.userId : id\<close>). \<open>user_id\<close> is an \<open>INT\<close> column.
\<close>

definition number_or_text :: "runtime \<Rightarrow> string \<Rightarrow> jsval" where
  "number_or_text rt segment =
     (let id = Number rt (JStr segment)
      in if id = NaN then JStr segment else JNum id)"

definition delete_boletas_userId :: "runtime \<Rightarrow> faults \<Rightarrow> string \<Rightarrow> store \<Rightarrow> response \<times> store" where
  "delete_boletas_userId rt flt userId st =
     (case flt 0 of
        Some error \<Rightarrow> (json 500 (JObj [(''error'', JStr ''Error al eliminar boletas'')]), st)
      | None \<Rightarrow>
          (case pg_int4 rt (number_or_text rt userId) of
             Inl error \<Rightarrow> (json 500 (JObj [(''error'', JStr ''Error al eliminar boletas'')]), st)
           | Inr key \<Rightarrow>
               (json 200 (JObj [(''ok'', JBool True)]),
                st\<lparr>tbl_boleta := filter (\<lambda>r. \<not> int_is key (js_get r ''user_id'')) (tbl_boleta st)\<rparr>)))"

section \<open>Categories service (index\_categorias.js)\<close>

definition defaults :: "string list" where
  "defaults = [''Electr'' @ [CHR 0xC3, CHR 0xB3] @ ''nica'', ''Ropa'', ''Hogar'', ''Gamer'']"

text \<open>A category name is present when the \<open>UNIQUE (nombre)\<close> constraint would see it.\<close>

definition has_categoria :: "runtime \<Rightarrow> jsval \<Rightarrow> jsobj list \<Rightarrow> bool" where
  "has_categoria rt nombre rows = list_ex (\<lambda>r. pg_eq rt (js_get r ''nombre'') nombre) rows"

text \<open>
  \<open>INSERT INTO categoria (nombre) VALUES ($1) ON CONFLICT (nombre) DO NOTHING\<close>. The
  \<open>SERIAL\<close> default is drawn before the conflict is seen, so the sequence moves either way.
\<close>

definition insert_categoria_ignore :: "runtime \<Rightarrow> jsval \<Rightarrow> store \<Rightarrow> store" where
  "insert_categoria_ignore rt nombre st =
     (if has_categoria rt nombre (tbl_categoria st)
      then st\<lparr>seq_categoria_id := seq_categoria_id st + 1\<rparr>
      else st\<lparr>tbl_categoria := tbl_categoria st @ [[(''id'', JInt (seq_categoria_id st)), (''nombre'', nombre)]],
              seq_categoria_id := seq_categoria_id st + 1\<rparr>)"

text \<open>
  \<open>INSERT INTO categoria (nombre) VALUES ($1) RETURNING *\<close>: a name already present
  violates the constraint, and the store raises \<open>23505\<close>.
\<close>

definition insert_categoria :: "runtime \<Rightarrow> jsval \<Rightarrow> store \<Rightarrow> (js_error + jsobj) \<times> store" where
  "insert_categoria rt nombre st =
     (if has_categoria rt nombre (tbl_categoria st)
      then (Inl (Error (Some ''23505'') ''duplicate key value violates unique constraint''),
            st\<lparr>seq_categoria_id := seq_categoria_id st + 1\<rparr>)
      else (let row = [(''id'', JInt (seq_categoria_id st)), (''nombre'', nombre)]
            in (Inr row, st\<lparr>tbl_categoria := tbl_categoria st @ [row],
                              seq_categoria_id := seq_categoria_id st + 1\<rparr>)))"

text \<open>\<open>SELECT nombre FROM categoria ORDER BY nombre\<close>, then \<open>rows.map(r => r.nombre)\<close>.\<close>

definition select_nombres :: "runtime \<Rightarrow> store \<Rightarrow> jsobj list" where
  "select_nombres rt st =
     sort_key (\<lambda>r. pg_order rt (js_get r ''nombre''))
       (map (\<lambda>r. [(''nombre'', js_get r ''nombre'')]) (tbl_categoria st))"

text \<open>
  The \<open>for\<close> loop of the seed route over the default names, query \<open>i\<close> of the request
  being the insert of the \<open>i\<close>-th name. A throw leaves the loop with the earlier inserts
  done: the route runs no transaction.
\<close>

fun seed_loop :: "runtime \<Rightarrow> faults \<Rightarrow> nat \<Rightarrow> string list \<Rightarrow> store \<Rightarrow> js_error option \<times> store" where
  "seed_loop rt flt i [] st = (None, st)"
| "seed_loop rt flt i (nombre # rest) st =
     (case flt i of
        Some err \<Rightarrow> (Some err, st)
      | None \<Rightarrow> seed_loop rt flt (Suc i) rest (insert_categoria_ignore rt (JStr nombre) st))"

definition post_categorias_seed :: "runtime \<Rightarrow> faults \<Rightarrow> store \<Rightarrow> response \<times> store" where
  "post_categorias_seed rt flt st =
     (case seed_loop rt flt 0 defaults st of
        (Some err, st') \<Rightarrow> (json 500 (message (''Error seeding categor'' @ [CHR 0xC3, CHR 0xAD] @ ''as'')), st')
      | (None, st') \<Rightarrow>
          (case flt (length defaults) of
             Some err \<Rightarrow> (json 500 (message (''Error seeding categor'' @ [CHR 0xC3, CHR 0xAD] @ ''as'')), st')
           | None \<Rightarrow>
               (json 200 (JObj [(''ok'', JBool True),
                                (''categorias'', JArr (map (\<lambda>r. js_get r ''nombre'') (select_nombres rt st')))]),
                st')))"

text \<open>
  \<open>POST /categorias\<close>. \<open>String(nombre)\<close> of a string is the string; \<open>nombre.trim()\<close>
  of a value that is not a string throws a \<open>TypeError\<close>, which has no \<open>code\<close>.
\<close>

definition String :: "runtime \<Rightarrow> jsval \<Rightarrow> string" where
  "String rt v = (case v of JStr s \<Rightarrow> s | _ \<Rightarrow> ToString rt v)"

definition post_categorias_catch :: "js_error \<Rightarrow> response" where
  "post_categorias_catch err =
     (if err_code err = Some ''23505''
      then json 409 (message (''Categor'' @ [CHR 0xC3, CHR 0xAD] @ ''a ya existe''))
      else json 500 (message (''Error creando categor'' @ [CHR 0xC3, CHR 0xAD] @ ''a'')))"

definition post_categorias :: "runtime \<Rightarrow> faults \<Rightarrow> jsobj \<Rightarrow> store \<Rightarrow> response \<times> store" where
  "post_categorias rt flt body st =
     (let nombre = js_get body ''nombre''
      in if \<not> truthy nombre \<or> \<not> truthy (JStr (String_trim rt (String rt nombre)))
         then (json 400 (message (''Nombre de categor'' @ [CHR 0xC3, CHR 0xAD] @ ''a requerido'')), st)
         else (case nombre of
                 JStr s \<Rightarrow>
                   (case flt 0 of
                      Some err \<Rightarrow> (post_categorias_catch err, st)
                    | None \<Rightarrow>
                        (case insert_categoria rt (JStr (String_trim rt s)) st of
                           (Inl err, st') \<Rightarrow> (post_categorias_catch err, st')
                         | (Inr row, st') \<Rightarrow> (json 201 (JObj row), st')))
               | _ \<Rightarrow> (post_categorias_catch (Error None ''nombre.trim is not a function''), st)))"

text \<open>
  \<open>DELETE /categorias/:id\<close>: three statements. The second, the clean-up of the
  products, sits in a \<open>try\<close> of its own whose \<open>catch\<close> only logs.
\<close>

definition clear_categoria :: "runtime \<Rightarrow> jsval \<Rightarrow> jsobj \<Rightarrow> jsobj" where
  "clear_categoria rt nombre p =
     (if pg_eq rt (js_get p ''categoria'') nombre then AList.update ''categoria'' JNull p else p)"

definition delete_categorias_catch :: response where
  "delete_categorias_catch = json 500 (message (''Error eliminando categor'' @ [CHR 0xC3, CHR 0xAD] @ ''a''))"

definition delete_categorias_id :: "runtime \<Rightarrow> faults \<Rightarrow> string \<Rightarrow> store \<Rightarrow> response \<times> store" where
  "delete_categorias_id rt flt cid st =
     (case flt 0 of
        Some err \<Rightarrow> (delete_categorias_catch, st)
      | None \<Rightarrow>
          (case pg_int4 rt (JStr cid) of
             Inl err \<Rightarrow> (delete_categorias_catch, st)
           | Inr key \<Rightarrow>
               (case filter (\<lambda>r. int_is key (js_get r ''id'')) (tbl_categoria st) of
                  [] \<Rightarrow> (json 404 (message (''Categor'' @ [CHR 0xC3, CHR 0xAD] @ ''a no encontrada'')), st)
                | row # others \<Rightarrow>
                    (let nombre = js_get row ''nombre'';
                         cleaned = (case flt 1 of
                                      Some e \<Rightarrow> st
                                    | None \<Rightarrow> st\<lparr>tbl_producto :=
                                                 map (clear_categoria rt nombre) (tbl_producto st)\<rparr>)
                     in case flt 2 of
                          Some err \<Rightarrow> (delete_categorias_catch, cleaned)
                        | None \<Rightarrow>
                            (json 200 (JObj [(''ok'', JBool True)]),
                             cleaned\<lparr>tbl_categoria :=
                                filter (\<lambda>r. \<not> int_is key (js_get r ''id'')) (tbl_categoria cleaned)\<rparr>)))))"

section \<open>Products service (index\_productos.js)\<close>

definition producto_columns :: "string list" where
  "producto_columns = [''id'', ''codigo'', ''nombre'', ''descripcion'', ''categoria'', ''precio'',
     ''precio_oferta'', ''en_oferta'', ''stock'', ''stock_critico'', ''imagen_url'']"

text \<open>
  \<open>INSERT INTO producto (codigo, ..., imagen_url) VALUES ($1, ..., $10) RETURNING *\<close>,
  the parameters in the order of the statement.
\<close>

definition insert_producto :: "jsval list \<Rightarrow> store \<Rightarrow> jsobj \<times> store" where
  "insert_producto params st =
     (let row = (''id'', JInt (seq_producto_id st)) # zip (tl producto_columns) params
      in (row, st\<lparr>tbl_producto := tbl_producto st @ [row],
                    seq_producto_id := seq_producto_id st + 1\<rparr>))"

text \<open>
  \<open>POST /productos\<close>. \<open>file\<close> is \<open>req.file.filename\<close> when the request carries an
  upload. The four comparisons of \<open>en_oferta\<close> are strict (\<open>===\<close>).
\<close>

definition post_productos :: "runtime \<Rightarrow> faults \<Rightarrow> string option \<Rightarrow> jsobj \<Rightarrow> store \<Rightarrow> response \<times> store" where
  "post_productos rt flt file body st =
     (let codigo = js_get body ''codigo'';
          nombre = js_get body ''nombre'';
          descripcion = js_get body ''descripcion'';
          categoria = js_get body ''categoria'';
          precio = js_get body ''precio'';
          precio_oferta = js_get body ''precio_oferta'';
          en_oferta = js_get body ''en_oferta'';
          stock = js_get body ''stock'';
          stock_critico = js_get body ''stock_critico'';
          precioNum = (if truthy precio then JNum (Number rt precio) else JNum (Fin 0));
          precioOfertaNum = (if truthy precio_oferta then JNum (Number rt precio_oferta) else JNull);
          stockNum = (if truthy stock then JNum (Number rt stock) else JNum (Fin 0));
          stockCriticoNum = (if truthy stock_critico then JNum (Number rt stock_critico) else JNum (Fin 0));
          enOfertaBool = (en_oferta = JStr ''true'' \<or> en_oferta = JBool True
                          \<or> en_oferta = JNum (Fin 1) \<or> en_oferta = JStr ''1'');
          imagen_url = (case file of
                          Some filename \<Rightarrow> JStr (''/uploads/'' @ filename)
                        | None \<Rightarrow> js_or (js_get body ''imagen'') JNull)
      in (case flt 0 of
            Some err \<Rightarrow>
              (json 500 (JObj [(''message'', JStr ''Error creando producto''),
                               (''error'', JStr (err_message err))]), st)
          | None \<Rightarrow>
              (case insert_producto
                      [js_or codigo JNull, js_or nombre JNull, js_or descripcion JNull,
                       js_or categoria JNull, precioNum, precioOfertaNum, JBool enOfertaBool,
                       stockNum, stockCriticoNum, imagen_url] st of
                 (row, st') \<Rightarrow> (json 201 (JObj row), st'))))"

text \<open>
  \<open>PUT /productos/:id\<close>, first part: \<open>campos\<close>, the copy of the body after the
  coercions and the choice of the image. \<open>if (campos.k) campos.k = Number(campos.k)\<close>:
\<close>

definition coerce_number :: "runtime \<Rightarrow> string \<Rightarrow> jsobj \<Rightarrow> jsobj" where
  "coerce_number rt k campos =
     (if truthy (js_get campos k) then AList.update k (JNum (Number rt (js_get campos k))) campos
      else campos)"

definition put_campos :: "runtime \<Rightarrow> string option \<Rightarrow> jsobj \<Rightarrow> jsobj" where
  "put_campos rt file body =
     (let campos = body;
          campos = coerce_number rt ''precio'' campos;
          campos = coerce_number rt ''precio_oferta'' campos;
          campos = coerce_number rt ''stock'' campos;
          campos = coerce_number rt ''stock_critico'' campos;
          campos = (if js_get campos ''en_oferta'' \<noteq> JUndefined
                    then AList.update ''en_oferta''
                           (JBool (js_get campos ''en_oferta'' = JStr ''true''
                                   \<or> js_get campos ''en_oferta'' = JBool True)) campos
                    else campos)
      in (case file of
            Some filename \<Rightarrow> AList.update ''imagen_url'' (JStr (''/uploads/'' @ filename)) campos
          | None \<Rightarrow>
              if truthy (js_get campos ''imagen'')
              then AList.delete ''imagen'' (AList.update ''imagen_url'' (js_get campos ''imagen'') campos)
              else campos))"

text \<open>
  \<open>UPDATE producto SET k1 = $1, ..., kn = $n WHERE id = $(n+1) RETURNING *\<close> with the keys
  of \<open>campos\<close>: a key that is no column of the table makes the store raise \<open>42703\<close>.
\<close>

definition set_columns :: "jsobj \<Rightarrow> jsobj \<Rightarrow> jsobj" where
  "set_columns campos row = foldl (\<lambda>r (k, v). AList.update k v r) row campos"

definition update_producto ::
  "runtime \<Rightarrow> jsobj \<Rightarrow> string \<Rightarrow> store \<Rightarrow> js_error + (jsobj list \<times> store)" where
  "update_producto rt campos pid st =
     (if \<not> list_all (\<lambda>k. k \<in> set producto_columns) (map fst campos)
      then Inl (Error (Some ''42703'') ''column does not exist'')
      else Inr (map (set_columns campos)
                  (filter (\<lambda>r. pg_eq rt (js_get r ''id'') (JStr pid)) (tbl_producto st)),
                st\<lparr>tbl_producto :=
                     map (\<lambda>r. if pg_eq rt (js_get r ''id'') (JStr pid) then set_columns campos r else r)
                       (tbl_producto st)\<rparr>))"

definition put_productos_catch :: "js_error \<Rightarrow> response" where
  "put_productos_catch err =
     json 500 (JObj [(''message'', JStr ''Error actualizando producto''),
                     (''error'', JStr (err_message err))])"

definition put_productos_id ::
  "runtime \<Rightarrow> faults \<Rightarrow> string option \<Rightarrow> string \<Rightarrow> jsobj \<Rightarrow> store \<Rightarrow> response \<times> store" where
  "put_productos_id rt flt file pid body st =
     (let campos = put_campos rt file body;
          keys = map fst campos
      in if length keys = 0
         then (json 400 (message ''No hay campos para actualizar''), st)
         else (case flt 0 of
                 Some err \<Rightarrow> (put_productos_catch err, st)
               | None \<Rightarrow>
                   (case update_producto rt campos pid st of
                      Inl err \<Rightarrow> (put_productos_catch err, st)
                    | Inr ([], st') \<Rightarrow> (json 404 (message ''No encontrado''), st')
                    | Inr (row # others, st') \<Rightarrow> (json 200 (JObj row), st'))))"

text \<open>\<open>GET /productos/categoria/:cat\<close>: \<open>SELECT * FROM producto WHERE categoria = $1\<close>.\<close>

definition get_productos_categoria :: "runtime \<Rightarrow> faults \<Rightarrow> string \<Rightarrow> store \<Rightarrow> response \<times> store" where
  "get_productos_categoria rt flt cat st =
     (case flt 0 of
        Some err \<Rightarrow>
          (json 500 (JObj [(''message'', JStr (''Error al obtener productos por categor'' @ [CHR 0xC3, CHR 0xAD] @ ''a'')),
                           (''error'', JStr (err_message err))]), st)
      | None \<Rightarrow>
          (json 200 (JArr (map JObj
             (filter (\<lambda>r. pg_eq rt (js_get r ''categoria'') (JStr cat)) (tbl_producto st)))), st))"

text \<open>
  \<open>DELETE /productos/:id\<close>: \<open>DELETE FROM producto WHERE id=$1\<close>, then \<open>{ok: true}\<close>.
  \<open>id\<close> is a \<open>SERIAL\<close> column and the parameter is the path segment.
\<close>

definition delete_productos_catch :: "js_error \<Rightarrow> response" where
  "delete_productos_catch err =
     json 500 (JObj [(''message'', JStr ''Error eliminando producto''),
                     (''error'', JStr (err_message err))])"

definition delete_productos_id :: "runtime \<Rightarrow> faults \<Rightarrow> string \<Rightarrow> store \<Rightarrow> response \<times> store" where
  "delete_productos_id rt flt pid st =
     (case flt 0 of
        Some err \<Rightarrow> (delete_productos_catch err, st)
      | None \<Rightarrow>
          (case pg_int4 rt (JStr pid) of
             Inl err \<Rightarrow> (delete_productos_catch err, st)
           | Inr key \<Rightarrow>
               (json 200 (JObj [(''ok'', JBool True)]),
                st\<lparr>tbl_producto := filter (\<lambda>r. \<not> int_is key (js_get r ''id'')) (tbl_producto st)\<rparr>)))"

section \<open>Users service (index\_usuarios.js)\<close>

definition SECRET_KEY :: "runtime \<Rightarrow> string" where
  "SECRET_KEY rt =
     (case env_JWT_SECRET rt of
        Some s \<Rightarrow> if s \<noteq> [] then s else ''CLAVE_SUPER_SECRETA''
      | None \<Rightarrow> ''CLAVE_SUPER_SECRETA'')"

record request =
  req_authorization :: "string option"
  req_usuario :: jsval
  req_id :: string

datatype middleware_result = Respond response | Next request

text \<open>\<open>s.split(" ")\<close>: the pieces between single spaces, empty pieces kept.\<close>

fun split :: "string \<Rightarrow> char \<Rightarrow> string list" where
  "split [] c = [[]]"
| "split (x # xs) c =
     (if x = c then [] # split xs c
      else (case split xs c of [] \<Rightarrow> [[x]] | piece # pieces \<Rightarrow> (x # piece) # pieces))"

text \<open>\<open>authHeader.split(" ")[1]\<close>: the second piece, or \<open>undefined\<close> (\<open>None\<close>).\<close>

definition token_of :: "string \<Rightarrow> string option" where
  "token_of authHeader =
     (let pieces = split authHeader CHR '' ''
      in if 1 < length pieces then Some (pieces ! 1) else None)"

text \<open>\<open>decoded.usuario\<close>: a payload that is a string has no such member.\<close>

fun decoded_usuario :: "jwt_payload \<Rightarrow> jsval" where
  "decoded_usuario (PayloadObject obj) = js_get obj ''usuario''"
| "decoded_usuario (PayloadString s) = JUndefined"

text \<open>
  The middleware either answers itself (\<open>Respond\<close>: \<open>next\<close> is not called) or hands the
  request on (\<open>Next\<close>). A header that is absent or empty is falsy.
\<close>

definition verificarToken :: "runtime \<Rightarrow> request \<Rightarrow> middleware_result" where
  "verificarToken rt req =
     (case req_authorization req of
        None \<Rightarrow> Respond (json 403 (message ''Token requerido''))
      | Some authHeader \<Rightarrow>
          if authHeader = [] then Respond (json 403 (message ''Token requerido''))
          else (let token = token_of authHeader
                in case jwt_verify rt token (SECRET_KEY rt) of
                     Inl err \<Rightarrow> Respond (json 401 (message (''Token inv'' @ [CHR 0xC3, CHR 0xA1] @ ''lido'')))
                   | Inr decoded \<Rightarrow> Next (req\<lparr>req_usuario := decoded_usuario decoded\<rparr>)))"

text \<open>\<open>app.get(path, verificarToken, handler)\<close>: the handler runs on what the middleware hands on.\<close>

definition guarded ::
  "runtime \<Rightarrow> (request \<Rightarrow> store \<Rightarrow> response \<times> store) \<Rightarrow> request \<Rightarrow> store \<Rightarrow> response \<times> store" where
  "guarded rt handler req st =
     (case verificarToken rt req of
        Respond res \<Rightarrow> (res, st)
      | Next req' \<Rightarrow> handler req' st)"

definition normalizarUsuario :: "jsobj \<Rightarrow> jsobj" where
  "normalizarUsuario row = AList.update ''historialCompras'' (js_or (js_get row ''historial'') (JArr [])) row"







text \<open>
  \<open>POST /usuarios/login\<close>: \<open>SELECT * FROM usuario WHERE correo=$1 AND password=$2\<close>, and a
  token for the \<open>correo\<close> of the request when a row comes back.
\<close>

definition post_usuarios_login :: "runtime \<Rightarrow> faults \<Rightarrow> jsobj \<Rightarrow> store \<Rightarrow> response \<times> store" where
  "post_usuarios_login rt flt body st =
     (let correo = js_get body ''correo'';
          password = js_get body ''password''
      in (case flt 0 of
            Some err \<Rightarrow>
              (json 500 (JObj [(''message'', JStr ''Error en login''), (''error'', JStr (err_message err))]), st)
          | None \<Rightarrow>
              (case filter (\<lambda>r. pg_eq rt (js_get r ''correo'') correo \<and> pg_eq rt (js_get r ''password'') password)
                      (tbl_usuario st) of
                 [] \<Rightarrow> (json 401 (message (''Credenciales inv'' @ [CHR 0xC3, CHR 0xA1] @ ''lidas'')), st)
               | userRow # others \<Rightarrow>
                   (let token = jwt_sign rt [(''usuario'', correo)] (SECRET_KEY rt) ''8h''
                    in (json 200 (JObj [(''token'', JStr token),
                                        (''user'', JObj (normalizarUsuario userRow))]), st)))))"

text \<open>The two routes behind the middleware.\<close>

definition usuarios_handler :: "runtime \<Rightarrow> faults \<Rightarrow> request \<Rightarrow> store \<Rightarrow> response \<times> store" where
  "usuarios_handler rt flt req st =
     (case flt 0 of
        Some err \<Rightarrow>
          (json 500 (JObj [(''message'', JStr ''Error al obtener usuarios''),
                           (''error'', JStr (err_message err))]), st)
      | None \<Rightarrow>
          (json 200 (JArr (map (\<lambda>r. JObj (normalizarUsuario r))
             (sort_key (\<lambda>r. pg_order rt (js_get r ''id'')) (tbl_usuario st)))), st))"

definition usuarios_id_handler :: "runtime \<Rightarrow> faults \<Rightarrow> request \<Rightarrow> store \<Rightarrow> response \<times> store" where
  "usuarios_id_handler rt flt req st =
     (case flt 0 of
        Some err \<Rightarrow>
          (json 500 (JObj [(''message'', JStr ''Error al obtener usuario''),
                           (''error'', JStr (err_message err))]), st)
      | None \<Rightarrow>
          (case filter (\<lambda>r. pg_eq rt (js_get r ''id'') (JStr (req_id req))) (tbl_usuario st) of
             [] \<Rightarrow> (json 404 (message ''Usuario no encontrado''), st)
           | row # others \<Rightarrow> (json 200 (JObj (normalizarUsuario row)), st)))"

definition get_usuarios :: "runtime \<Rightarrow> faults \<Rightarrow> request \<Rightarrow> store \<Rightarrow> response \<times> store" where
  "get_usuarios rt flt = guarded rt (usuarios_handler rt flt)"

definition get_usuarios_id :: "runtime \<Rightarrow> faults \<Rightarrow> request \<Rightarrow> store \<Rightarrow> response \<times> store" where
  "get_usuarios_id rt flt = guarded rt (usuarios_id_handler rt flt)"

section \<open>A sample runtime and sample stores\<close>

text \<open>
  Concrete values at which the theorems below are instantiated: a runtime that parses
  three JSON texts and whose store reads a string of digits as the number it writes, an
  empty store, and a store with one row in each table.
\<close>

definition quoted :: "string \<Rightarrow> string" where
  "quoted s = CHR 0x22 # s @ [CHR 0x22]"

definition ana_text :: string where
  "ana_text = ''{'' @ quoted ''nombre'' @ '':'' @ quoted ''Ana'' @ '','' @ quoted ''correo'' @ '':''
                 @ quoted ''ana@x.cl'' @ ''}''"

definition rt0 :: runtime where
  "rt0 = \<lparr>JSON_parse = (\<lambda>s. if s = ''[]'' then Some (JArr [])
                             else if s = ''[7]'' then Some (JArr [JNum (Fin 7)])
                             else if s = ana_text
                             then Some (JObj [(''nombre'', JStr ''Ana''), (''correo'', JStr ''ana@x.cl'')])
                             else None),
          JSON_stringify = (\<lambda>v. ''{}''),
          StringToNumber_other = (\<lambda>s. NaN),
          ObjectToNumber = (\<lambda>v. NaN),
          new_Date = (\<lambda>v. InvalidDate),
          Date_now = Date 0,
          env_JWT_SECRET = None,
          jwt_verify = (\<lambda>token key. if token = Some ''good''
                          then Inr (PayloadObject [(''usuario'', JStr ''ana@x.cl'')])
                          else Inl (JsonWebTokenError ''jwt malformed'')),
          jwt_sign = (\<lambda>payload key expiry. ''good''),
          pg_jsonb = (\<lambda>s. Inr (JStr s)),
          pg_same = (\<lambda>col param. case param of
                        JStr s \<Rightarrow> s \<noteq> [] \<and> list_all is_digit s \<and> col = JNum (Fin (of_nat (dec_val s)))
                      | _ \<Rightarrow> False),
          pg_order = (\<lambda>v. 0),
          ToString = (\<lambda>v. []),
          String_trim = (\<lambda>s. s),
          pg_int4_other = (\<lambda>v. Inl invalid_integer),
          pg_timestamp_other = (\<lambda>t. Some invalid_timestamp),
          pg_numeric_inf = Some (Error (Some ''22P02'') ''invalid input syntax for type numeric'')\<rparr>"

definition st0 :: store where
  "st0 = \<lparr>tbl_usuario = [], seq_usuario_id = 1, tbl_producto = [], seq_producto_id = 1,
          tbl_categoria = [], seq_categoria_id = 1, tbl_boleta = [], seq_boleta_id = 1,
          seq_boleta_numero_compra = 1\<rparr>"

definition ana :: jsobj where
  "ana = [(''id'', JInt 1), (''nombre'', JStr ''Ana''), (''apellidos'', JNull),
          (''correo'', JStr ''ana@x.cl''), (''password'', JStr ''secreta''), (''historial'', JArr []),
          (''run'', JNull), (''fecha_nacimiento'', JNull), (''tipo_usuario'', JStr ''cliente''),
          (''direccion'', JNull), (''region'', JNull), (''comuna'', JNull), (''departamento'', JNull),
          (''indicacion'', JNull)]"

definition polera :: jsobj where
  "polera = [(''id'', JInt 1), (''codigo'', JStr ''P-1''), (''nombre'', JStr ''Polera''),
             (''descripcion'', JNull), (''categoria'', JStr ''Ropa''), (''precio'', JNum (Fin 9990)),
             (''precio_oferta'', JNull), (''en_oferta'', JBool False), (''stock'', JNum (Fin 5)),
             (''stock_critico'', JNum (Fin 1)), (''imagen_url'', JNull)]"

definition st1 :: store where
  "st1 = \<lparr>tbl_usuario = [ana], seq_usuario_id = 2,
          tbl_producto = [polera], seq_producto_id = 2,
          tbl_categoria = [[(''id'', JInt 1), (''nombre'', JStr ''Ropa'')]], seq_categoria_id = 2,
          tbl_boleta = [[(''id'', JInt 1), (''numero_compra'', JInt 1), (''fecha'', JDate (Date 0)),
                         (''comprador'', JObj [(''nombre'', JStr ''Ana''), (''correo'', JStr ''ana@x.cl'')]),
                         (''productos'', JArr [JObj [(''id'', JInt 1)]]), (''total'', JNum (Fin 9990)),
                         (''user_id'', JInt 1)]],
          seq_boleta_id = 2, seq_boleta_numero_compra = 2\<rparr>"

section \<open>Shared facts: evaluation, property lookup, the product insert\<close>

lemmas eval_defs = rt0_def st0_def st1_def ana_def polera_def js_get_def pg_eq_def nullish_def JInt_def
  StringToNumber_def is_digit_def dec_val_def digit_val_def

lemma js_get_update: "js_get (AList.update k v al) k' = (if k' = k then v else js_get al k')"
  by (simp add: js_get_def update_conv')

lemma js_get_delete: "js_get (AList.delete k al) k' = (if k' = k then JUndefined else js_get al k')"
  by (simp add: js_get_def delete_conv')

lemma js_get_Nil: "js_get [] k = JUndefined"
  by (simp add: js_get_def)

lemma js_get_Cons: "js_get ((k', v) # al) k = (if k = k' then v else js_get al k)"
  by (simp add: js_get_def)

text \<open>What \<open>POST /productos\<close> does when the store executes the insert.\<close>

lemma post_productos_row:
  "post_productos rt no_fault file body st =
     (json 201 (JObj (fst (insert_producto
        [js_or (js_get body ''codigo'') JNull, js_or (js_get body ''nombre'') JNull,
         js_or (js_get body ''descripcion'') JNull, js_or (js_get body ''categoria'') JNull,
         (if truthy (js_get body ''precio'') then JNum (Number rt (js_get body ''precio'')) else JNum (Fin 0)),
         (if truthy (js_get body ''precio_oferta'') then JNum (Number rt (js_get body ''precio_oferta'')) else JNull),
         JBool (js_get body ''en_oferta'' \<in> {JStr ''true'', JBool True, JNum (Fin 1), JStr ''1''}),
         (if truthy (js_get body ''stock'') then JNum (Number rt (js_get body ''stock'')) else JNum (Fin 0)),
         (if truthy (js_get body ''stock_critico'') then JNum (Number rt (js_get body ''stock_critico'')) else JNum (Fin 0)),
         (case file of Some filename \<Rightarrow> JStr (''/uploads/'' @ filename)
                     | None \<Rightarrow> js_or (js_get body ''imagen'') JNull)] st))),
      snd (insert_producto
        [js_or (js_get body ''codigo'') JNull, js_or (js_get body ''nombre'') JNull,
         js_or (js_get body ''descripcion'') JNull, js_or (js_get body ''categoria'') JNull,
         (if truthy (js_get body ''precio'') then JNum (Number rt (js_get body ''precio'')) else JNum (Fin 0)),
         (if truthy (js_get body ''precio_oferta'') then JNum (Number rt (js_get body ''precio_oferta'')) else JNull),
         JBool (js_get body ''en_oferta'' \<in> {JStr ''true'', JBool True, JNum (Fin 1), JStr ''1''}),
         (if truthy (js_get body ''stock'') then JNum (Number rt (js_get body ''stock'')) else JNum (Fin 0)),
         (if truthy (js_get body ''stock_critico'') then JNum (Number rt (js_get body ''stock_critico'')) else JNum (Fin 0)),
         (case file of Some filename \<Rightarrow> JStr (''/uploads/'' @ filename)
                     | None \<Rightarrow> js_or (js_get body ''imagen'') JNull)] st))"
  by (simp add: post_productos_def no_fault_def Let_def split: prod.splits)

lemma insert_producto_row:
  "fst (insert_producto [c, n, d, cat, p, po, eo, s, sc, img] st) =
     [(''id'', JInt (seq_producto_id st)), (''codigo'', c), (''nombre'', n), (''descripcion'', d),
      (''categoria'', cat), (''precio'', p), (''precio_oferta'', po), (''en_oferta'', eo),
      (''stock'', s), (''stock_critico'', sc), (''imagen_url'', img)]"
  "snd (insert_producto ps st) =
     st\<lparr>tbl_producto := tbl_producto st @ [fst (insert_producto ps st)],
        seq_producto_id := seq_producto_id st + 1\<rparr>"
  by (simp_all add: insert_producto_def producto_columns_def Let_def)

text \<open>
  Integer keys: what the store reads from a text of digits, from a text with no digit and
  from a natural number, and what a key that was read matches.
\<close>

lemma pg_int4_digits:
  "s \<noteq> [] \<Longrightarrow> list_all is_digit s \<Longrightarrow> int (dec_val s) \<le> 2147483647 \<Longrightarrow>
   pg_int4 rt (JStr s) = Inr (Some (int (dec_val s)))"
  by (simp add: pg_int4_def)

lemma pg_int4_no_digit: "\<not> list_ex is_digit s \<Longrightarrow> pg_int4 rt (JStr s) = Inl invalid_integer"
  by (auto simp add: pg_int4_def list_all_iff list_ex_iff)

lemma pg_int4_nat:
  "int n \<le> 2147483647 \<Longrightarrow> pg_int4 rt (JNum (Fin (of_nat n))) = Inr (Some (int n))"
  by (simp add: pg_int4_def)

lemma int_is_Some: "int_is (Some z) v = (v = JInt z)"
  by (simp add: int_is_def)

section \<open>Products by category\<close>

text \<open>
  Claim C10. \<open>GET /productos/categoria/:cat\<close> answers 200 with the array of the products
  whose \<open>categoria\<close> is the given name, for every name; with no such product the answer is
  200 with the empty array; the status is never 404, whatever the store does.
\<close>

theorem get_productos_categoria_ok:
  "get_productos_categoria rt no_fault cat st =
     (json 200 (JArr (map JObj (filter (\<lambda>r. pg_eq rt (js_get r ''categoria'') (JStr cat)) (tbl_producto st)))), st)
   \<and> ((\<forall>r \<in> set (tbl_producto st). \<not> pg_eq rt (js_get r ''categoria'') (JStr cat)) \<longrightarrow>
        get_productos_categoria rt no_fault cat st = (json 200 (JArr []), st))
   \<and> res_status (fst (get_productos_categoria rt flt cat st)) \<noteq> 404"
  by (auto simp add: get_productos_categoria_def no_fault_def json_def split: option.splits)

theorem get_productos_categoria_ok_witness:
  "get_productos_categoria rt0 no_fault ''Ropa'' st1 = (json 200 (JArr [JObj polera]), st1)
   \<and> get_productos_categoria rt0 no_fault ''Hogar'' st1 = (json 200 (JArr []), st1)"
proof -
  have a: "\<forall>r \<in> set (tbl_producto st1). \<not> pg_eq rt0 (js_get r ''categoria'') (JStr ''Hogar'')"
    by (simp add: eval_defs)
  have b: "filter (\<lambda>r. pg_eq rt0 (js_get r ''categoria'') (JStr ''Ropa'')) (tbl_producto st1) = [polera]"
    by (simp add: eval_defs)
  from get_productos_categoria_ok [of rt0 "''Ropa''" st1] b
  have 1: "get_productos_categoria rt0 no_fault ''Ropa'' st1 = (json 200 (JArr [JObj polera]), st1)"
    by simp
  from get_productos_categoria_ok [of rt0 "''Hogar''" st1] a
  have 2: "get_productos_categoria rt0 no_fault ''Hogar'' st1 = (json 200 (JArr []), st1)"
    by blast
  from 1 2 show ?thesis by blast
qed

section \<open>Login failures\<close>

text \<open>
  Claim C3. A login that matches no stored pair of \<open>correo\<close> and \<open>password\<close> is
  answered the same way whatever the reason: a run in which no row has both the \<open>correo\<close>
  and the \<open>password\<close> of the request (a right \<open>correo\<close> with a wrong password among
  them) and a run in which no row has the \<open>correo\<close> at all give the same response,
  whatever the store does with the query; when it executes the query, that response is
  status 401 with the one fixed body.
\<close>

theorem login_failure_uniform:
  "(\<forall>r \<in> set (tbl_usuario stA). \<not> (pg_eq rt (js_get r ''correo'') (js_get bodyA ''correo'')
                                     \<and> pg_eq rt (js_get r ''password'') (js_get bodyA ''password'')))
   \<and> (\<forall>r \<in> set (tbl_usuario stB). \<not> pg_eq rt (js_get r ''correo'') (js_get bodyB ''correo''))
   \<longrightarrow> fst (post_usuarios_login rt flt bodyA stA) = fst (post_usuarios_login rt flt bodyB stB)
     \<and> post_usuarios_login rt no_fault bodyA stA
         = (json 401 (message (''Credenciales inv'' @ [CHR 0xC3, CHR 0xA1] @ ''lidas'')), stA)
     \<and> post_usuarios_login rt no_fault bodyB stB
         = (json 401 (message (''Credenciales inv'' @ [CHR 0xC3, CHR 0xA1] @ ''lidas'')), stB)"
  by (auto simp add: post_usuarios_login_def no_fault_def Let_def filter_empty_conv
      split: list.splits option.splits)

theorem login_failure_uniform_witness:
  "fst (post_usuarios_login rt0 no_fault [(''correo'', JStr ''ana@x.cl''), (''password'', JStr ''otra'')] st1)
     = fst (post_usuarios_login rt0 no_fault [(''correo'', JStr ''eva@x.cl''), (''password'', JStr ''secreta'')] st1)
   \<and> res_status (fst (post_usuarios_login rt0 no_fault
        [(''correo'', JStr ''ana@x.cl''), (''password'', JStr ''otra'')] st1)) = 401"
proof -
  let ?b1 = "[(''correo'', JStr ''ana@x.cl''), (''password'', JStr ''otra'')]"
  let ?b2 = "[(''correo'', JStr ''eva@x.cl''), (''password'', JStr ''secreta'')]"
  have a: "\<forall>r \<in> set (tbl_usuario st1). \<not> (pg_eq rt0 (js_get r ''correo'') (js_get ?b1 ''correo'')
                                     \<and> pg_eq rt0 (js_get r ''password'') (js_get ?b1 ''password''))"
    by (simp add: eval_defs)
  have b: "\<forall>r \<in> set (tbl_usuario st1). \<not> pg_eq rt0 (js_get r ''correo'') (js_get ?b2 ''correo'')"
    by (simp add: eval_defs)
  from login_failure_uniform [where rt = rt0 and stA = st1 and stB = st1 and bodyA = ?b1 and bodyB = ?b2
      and flt = no_fault] a b
  show ?thesis by (simp add: json_def)
qed

section \<open>Creating a product: coercions\<close>




section \<open>Updating a product: the on-sale flag\<close>

lemma js_get_coerce_other: "k' \<noteq> k \<Longrightarrow> js_get (coerce_number rt k campos) k' = js_get campos k'"
  by (simp add: coerce_number_def js_get_update)

lemma put_campos_en_oferta:
  "js_get (put_campos rt file body) ''en_oferta'' =
     (if js_get body ''en_oferta'' \<noteq> JUndefined
      then JBool (js_get body ''en_oferta'' = JStr ''true'' \<or> js_get body ''en_oferta'' = JBool True)
      else JUndefined)"
proof -
  let ?c = "coerce_number rt ''stock_critico'' (coerce_number rt ''stock''
              (coerce_number rt ''precio_oferta'' (coerce_number rt ''precio'' body)))"
  have c: "js_get ?c ''en_oferta'' = js_get body ''en_oferta''"
    by (simp add: js_get_coerce_other)
  show ?thesis
    unfolding put_campos_def Let_def
    by (cases "file") (simp_all add: js_get_update js_get_delete c)
qed

lemma distinct_coerce: "distinct (map fst al) \<Longrightarrow> distinct (map fst (coerce_number rt k al))"
  by (simp add: coerce_number_def distinct_update)

lemma distinct_put_campos: "distinct (map fst body) \<Longrightarrow> distinct (map fst (put_campos rt file body))"
  unfolding put_campos_def Let_def
  by (cases "file") (simp_all add: distinct_coerce distinct_update distinct_delete)

lemma coerce_number_falsy: "\<not> truthy (js_get campos k) \<Longrightarrow> coerce_number rt k campos = campos"
  by (simp add: coerce_number_def)

lemma js_get_set_columns:
  "distinct (map fst campos) \<Longrightarrow>
   js_get (set_columns campos row) k = (if k \<in> fst ` set campos then js_get campos k else js_get row k)"
  unfolding set_columns_def
proof (induction campos arbitrary: row)
  case Nil
  then show ?case by simp
next
  case (Cons kv campos)
  obtain k' v where kv: "kv = (k', v)" by (cases kv)
  from Cons.prems kv have d: "distinct (map fst campos)" and n: "k' \<notin> fst ` set campos" by auto
  show ?case
    using Cons.IH [OF d, of "AList.update k' v row"] n
    by (auto simp add: kv js_get_update js_get_Cons)
qed

lemma js_get_in_keys: "js_get al k \<noteq> JUndefined \<Longrightarrow> k \<in> fst ` set al"
  by (auto simp add: js_get_def split: option.splits dest!: map_of_SomeD intro: rev_image_eqI)

lemma post_productos_flag:
  "\<exists>row. fst (post_productos rt no_fault file body st) = json 201 (JObj row)
     \<and> js_get row ''en_oferta'' =
          JBool (js_get body ''en_oferta'' \<in> {JStr ''true'', JBool True, JNum (Fin 1), JStr ''1''})"
  unfolding post_productos_row insert_producto_row fst_conv
  by (rule exI, rule conjI, rule refl) (simp add: js_get_def)

lemma put_productos_store:
  assumes "put_campos rt file body \<noteq> []"
    and "list_all (\<lambda>k. k \<in> set producto_columns) (map fst (put_campos rt file body))"
  shows "tbl_producto (snd (put_productos_id rt no_fault file pid body st)) =
     map (\<lambda>r. if pg_eq rt (js_get r ''id'') (JStr pid) then set_columns (put_campos rt file body) r else r)
       (tbl_producto st)"
  using assms
  by (simp add: put_productos_id_def update_producto_def no_fault_def Let_def split: list.splits)

text \<open>
  Claim C9. \<open>PUT /productos/:id\<close> replaces an \<open>en_oferta\<close> that is present by the
  boolean ``it is \<open>"true"\<close> or \<open>true\<close>''. So \<open>1\<close> and \<open>"1"\<close>, which \<open>POST /productos\<close>
  stores as true, become false on update; whatever the update makes true the create makes
  true as well; and the rows the update reaches hold that boolean afterwards.
\<close>

theorem put_en_oferta_narrower:
  "(js_get body ''en_oferta'' \<noteq> JUndefined \<longrightarrow>
      js_get (put_campos rt file body) ''en_oferta'' =
        JBool (js_get body ''en_oferta'' = JStr ''true'' \<or> js_get body ''en_oferta'' = JBool True))
   \<and> (js_get body ''en_oferta'' \<in> {JNum (Fin 1), JStr ''1''} \<longrightarrow>
        js_get (put_campos rt file body) ''en_oferta'' = JBool False
        \<and> (\<exists>row. fst (post_productos rt no_fault file body st) = json 201 (JObj row)
               \<and> js_get row ''en_oferta'' = JBool True))
   \<and> (js_get (put_campos rt file body) ''en_oferta'' = JBool True \<longrightarrow>
        (\<exists>row. fst (post_productos rt no_fault file body st) = json 201 (JObj row)
               \<and> js_get row ''en_oferta'' = JBool True))
   \<and> (distinct (map fst body) \<and> js_get body ''en_oferta'' \<noteq> JUndefined
        \<and> list_all (\<lambda>k. k \<in> set producto_columns) (map fst (put_campos rt file body)) \<longrightarrow>
        length (tbl_producto (snd (put_productos_id rt no_fault file pid body st))) = length (tbl_producto st)
        \<and> (\<forall>i < length (tbl_producto st).
              pg_eq rt (js_get (tbl_producto st ! i) ''id'') (JStr pid) \<longrightarrow>
              js_get (tbl_producto (snd (put_productos_id rt no_fault file pid body st)) ! i) ''en_oferta'' =
                JBool (js_get body ''en_oferta'' = JStr ''true'' \<or> js_get body ''en_oferta'' = JBool True)))"
proof (intro conjI impI)
  assume "js_get body ''en_oferta'' \<noteq> JUndefined"
  then show "js_get (put_campos rt file body) ''en_oferta'' =
        JBool (js_get body ''en_oferta'' = JStr ''true'' \<or> js_get body ''en_oferta'' = JBool True)"
    by (simp add: put_campos_en_oferta)
next
  assume "js_get body ''en_oferta'' \<in> {JNum (Fin 1), JStr ''1''}"
  then show "js_get (put_campos rt file body) ''en_oferta'' = JBool False"
    by (auto simp add: put_campos_en_oferta)
next
  assume "js_get body ''en_oferta'' \<in> {JNum (Fin 1), JStr ''1''}"
  with post_productos_flag [of rt "file" body st]
  show "\<exists>row. fst (post_productos rt no_fault file body st) = json 201 (JObj row)
               \<and> js_get row ''en_oferta'' = JBool True"
    by auto
next
  assume "js_get (put_campos rt file body) ''en_oferta'' = JBool True"
  then have "js_get body ''en_oferta'' = JStr ''true'' \<or> js_get body ''en_oferta'' = JBool True"
    by (simp add: put_campos_en_oferta split: if_splits)
  with post_productos_flag [of rt "file" body st]
  show "\<exists>row. fst (post_productos rt no_fault file body st) = json 201 (JObj row)
               \<and> js_get row ''en_oferta'' = JBool True"
    by auto
next
  assume a: "distinct (map fst body) \<and> js_get body ''en_oferta'' \<noteq> JUndefined
        \<and> list_all (\<lambda>k. k \<in> set producto_columns) (map fst (put_campos rt file body))"
  then have k: "''en_oferta'' \<in> fst ` set (put_campos rt file body)"
    by (intro js_get_in_keys) (simp add: put_campos_en_oferta)
  then have "put_campos rt file body \<noteq> []" by auto
  with a show "length (tbl_producto (snd (put_productos_id rt no_fault file pid body st))) = length (tbl_producto st)"
    by (simp add: put_productos_store)
next
  assume a: "distinct (map fst body) \<and> js_get body ''en_oferta'' \<noteq> JUndefined
        \<and> list_all (\<lambda>k. k \<in> set producto_columns) (map fst (put_campos rt file body))"
  then have k: "''en_oferta'' \<in> fst ` set (put_campos rt file body)"
    by (intro js_get_in_keys) (simp add: put_campos_en_oferta)
  then have ne: "put_campos rt file body \<noteq> []" by auto
  from a have d: "distinct (map fst (put_campos rt file body))"
    by (simp add: distinct_put_campos)
  have v: "js_get (set_columns (put_campos rt file body) r) ''en_oferta'' =
       JBool (js_get body ''en_oferta'' = JStr ''true'' \<or> js_get body ''en_oferta'' = JBool True)" for r
    using a k by (simp add: js_get_set_columns [OF d] put_campos_en_oferta)
  from a ne show "\<forall>i < length (tbl_producto st).
              pg_eq rt (js_get (tbl_producto st ! i) ''id'') (JStr pid) \<longrightarrow>
              js_get (tbl_producto (snd (put_productos_id rt no_fault file pid body st)) ! i) ''en_oferta'' =
                JBool (js_get body ''en_oferta'' = JStr ''true'' \<or> js_get body ''en_oferta'' = JBool True)"
    by (simp add: put_productos_store v)
qed

theorem put_en_oferta_narrower_witness:
  "js_get (put_campos rt0 None [(''en_oferta'', JStr ''1'')]) ''en_oferta'' = JBool False
   \<and> js_get (put_campos rt0 None [(''en_oferta'', JStr ''true'')]) ''en_oferta'' = JBool True
   \<and> (\<exists>row. fst (post_productos rt0 no_fault None [(''en_oferta'', JStr ''1'')] st1) = json 201 (JObj row)
          \<and> js_get row ''en_oferta'' = JBool True)
   \<and> js_get (tbl_producto (snd (put_productos_id rt0 no_fault None ''1'' [(''en_oferta'', JStr ''1'')] st1)) ! 0)
         ''en_oferta'' = JBool False"
proof -
  let ?one = "[(''en_oferta'', JStr ''1'')]"
  let ?true = "[(''en_oferta'', JStr ''true'')]"
  have a: "js_get ?one ''en_oferta'' \<in> {JNum (Fin 1), JStr ''1''}" "js_get ?one ''en_oferta'' \<noteq> JUndefined"
    "js_get ?true ''en_oferta'' \<noteq> JUndefined" "distinct (map fst ?one)"
    by (simp_all add: js_get_def)
  have "put_campos rt0 None ?one = [(''en_oferta'', JBool False)]"
    by (simp add: put_campos_def Let_def coerce_number_falsy js_get_Cons js_get_Nil)
  then have b: "list_all (\<lambda>k. k \<in> set producto_columns) (map fst (put_campos rt0 None ?one))"
    by (simp add: producto_columns_def)
  have c: "0 < length (tbl_producto st1)" "pg_eq rt0 (js_get (tbl_producto st1 ! 0) ''id'') (JStr ''1'')"
    by (simp_all add: eval_defs)
  from put_en_oferta_narrower [of ?one rt0 None st1 "''1''"] a b c
  have 1: "js_get (put_campos rt0 None ?one) ''en_oferta'' = JBool False"
    and 2: "\<exists>row. fst (post_productos rt0 no_fault None ?one st1) = json 201 (JObj row)
          \<and> js_get row ''en_oferta'' = JBool True"
    and 3: "js_get (tbl_producto (snd (put_productos_id rt0 no_fault None ''1'' ?one st1)) ! 0)
         ''en_oferta'' = JBool False"
    by (simp_all add: js_get_def)
  from put_en_oferta_narrower [of ?true rt0 None st1 "''1''"] a
  have 4: "js_get (put_campos rt0 None ?true) ''en_oferta'' = JBool True"
    by (simp add: js_get_def)
  from 1 2 3 4 show ?thesis by blast
qed

section \<open>The token middleware\<close>

text \<open>
  Claim C7. On the protected routes \<open>GET /usuarios\<close> and \<open>GET /usuarios/:id\<close>: with no
  \<open>Authorization\<close> header (or an empty one) \<open>verificarToken\<close> answers 403 itself and the
  route's answer does not depend on the handler; when the token library rejects the token
  (malformed, expired, bad signature: any error) it answers 401, again without the handler;
  when the token verifies, the request goes on with \<open>req.usuario\<close> set to the \<open>usuario\<close>
  of the decoded payload, and the route's answer is the handler's on that request.
\<close>

theorem verificarToken_gate:
  "((req_authorization req = None \<or> req_authorization req = Some []) \<longrightarrow>
      verificarToken rt req = Respond (json 403 (message ''Token requerido''))
      \<and> (\<forall>handler. guarded rt handler req st = (json 403 (message ''Token requerido''), st))
      \<and> get_usuarios rt flt req st = (json 403 (message ''Token requerido''), st)
      \<and> get_usuarios_id rt flt req st = (json 403 (message ''Token requerido''), st))
   \<and> (req_authorization req = Some authHeader \<and> authHeader \<noteq> []
        \<and> jwt_verify rt (token_of authHeader) (SECRET_KEY rt) = Inl err \<longrightarrow>
      verificarToken rt req = Respond (json 401 (message (''Token inv'' @ [CHR 0xC3, CHR 0xA1] @ ''lido'')))
      \<and> (\<forall>handler. guarded rt handler req st
            = (json 401 (message (''Token inv'' @ [CHR 0xC3, CHR 0xA1] @ ''lido'')), st))
      \<and> get_usuarios rt flt req st = (json 401 (message (''Token inv'' @ [CHR 0xC3, CHR 0xA1] @ ''lido'')), st)
      \<and> get_usuarios_id rt flt req st
            = (json 401 (message (''Token inv'' @ [CHR 0xC3, CHR 0xA1] @ ''lido'')), st))
   \<and> (req_authorization req = Some authHeader \<and> authHeader \<noteq> []
        \<and> jwt_verify rt (token_of authHeader) (SECRET_KEY rt) = Inr decoded \<longrightarrow>
      verificarToken rt req = Next (req\<lparr>req_usuario := decoded_usuario decoded\<rparr>)
      \<and> (\<forall>handler. guarded rt handler req st = handler (req\<lparr>req_usuario := decoded_usuario decoded\<rparr>) st)
      \<and> get_usuarios rt flt req st = usuarios_handler rt flt (req\<lparr>req_usuario := decoded_usuario decoded\<rparr>) st
      \<and> get_usuarios_id rt flt req st
            = usuarios_id_handler rt flt (req\<lparr>req_usuario := decoded_usuario decoded\<rparr>) st)"
  by (auto simp add: verificarToken_def guarded_def get_usuarios_def get_usuarios_id_def Let_def)

theorem verificarToken_gate_witness:
  "get_usuarios rt0 no_fault \<lparr>req_authorization = None, req_usuario = JUndefined, req_id = ''1''\<rparr> st1
     = (json 403 (message ''Token requerido''), st1)
   \<and> res_status (fst (get_usuarios_id rt0 no_fault
        \<lparr>req_authorization = Some ''Bearer bad'', req_usuario = JUndefined, req_id = ''1''\<rparr> st1)) = 401
   \<and> verificarToken rt0 \<lparr>req_authorization = Some ''Bearer good'', req_usuario = JUndefined, req_id = ''1''\<rparr>
     = Next \<lparr>req_authorization = Some ''Bearer good'', req_usuario = JStr ''ana@x.cl'', req_id = ''1''\<rparr>
   \<and> get_usuarios_id rt0 no_fault
        \<lparr>req_authorization = Some ''Bearer good'', req_usuario = JUndefined, req_id = ''1''\<rparr> st1
     = usuarios_id_handler rt0 no_fault
        \<lparr>req_authorization = Some ''Bearer good'', req_usuario = JStr ''ana@x.cl'', req_id = ''1''\<rparr> st1"
proof -
  let ?none = "\<lparr>req_authorization = None, req_usuario = JUndefined, req_id = ''1''\<rparr>"
  let ?bad = "\<lparr>req_authorization = Some ''Bearer bad'', req_usuario = JUndefined, req_id = ''1''\<rparr>"
  let ?good = "\<lparr>req_authorization = Some ''Bearer good'', req_usuario = JUndefined, req_id = ''1''\<rparr>"
  have t: "token_of ''Bearer bad'' = Some ''bad''" "token_of ''Bearer good'' = Some ''good''"
    by (simp_all add: token_of_def)
  have a: "jwt_verify rt0 (token_of ''Bearer bad'') (SECRET_KEY rt0) = Inl (JsonWebTokenError ''jwt malformed'')"
    by (simp add: t rt0_def)
  have b: "jwt_verify rt0 (token_of ''Bearer good'') (SECRET_KEY rt0)
             = Inr (PayloadObject [(''usuario'', JStr ''ana@x.cl'')])"
    by (simp add: t rt0_def)
  from verificarToken_gate [of ?none rt0 st1 no_fault]
  have 1: "get_usuarios rt0 no_fault ?none st1 = (json 403 (message ''Token requerido''), st1)"
    by simp
  from verificarToken_gate [of ?bad rt0 st1 no_fault "''Bearer bad''" "JsonWebTokenError ''jwt malformed''"] a
  have 2: "res_status (fst (get_usuarios_id rt0 no_fault ?bad st1)) = 401"
    by (simp add: json_def)
  from verificarToken_gate [of ?good rt0 st1 no_fault "''Bearer good''" _ "PayloadObject [(''usuario'', JStr ''ana@x.cl'')]"] b
  have 3: "verificarToken rt0 ?good = Next (?good\<lparr>req_usuario := JStr ''ana@x.cl''\<rparr>)"
    and 4: "get_usuarios_id rt0 no_fault ?good st1
              = usuarios_id_handler rt0 no_fault (?good\<lparr>req_usuario := JStr ''ana@x.cl''\<rparr>) st1"
    by (simp_all add: js_get_def)
  from 1 2 3 4 show ?thesis by simp
qed

section \<open>Registering a user twice\<close>












section \<open>Seeding the default categories\<close>

lemma has_categoria_append:
  "has_categoria rt n (rows @ [row]) = (has_categoria rt n rows \<or> pg_eq rt (js_get row ''nombre'') n)"
  by (simp add: has_categoria_def)

lemma insert_ignore_present:
  "has_categoria rt n (tbl_categoria st) \<Longrightarrow> tbl_categoria (insert_categoria_ignore rt n st) = tbl_categoria st"
  by (simp add: insert_categoria_ignore_def)

lemma insert_ignore_absent:
  "\<not> has_categoria rt n (tbl_categoria st) \<Longrightarrow>
   tbl_categoria (insert_categoria_ignore rt n st) =
     tbl_categoria st @ [[(''id'', JInt (seq_categoria_id st)), (''nombre'', n)]]"
  by (simp add: insert_categoria_ignore_def)

lemma insert_ignore_has:
  "\<not> nullish n \<Longrightarrow> has_categoria rt n (tbl_categoria (insert_categoria_ignore rt n st))"
  by (cases "has_categoria rt n (tbl_categoria st)")
     (simp_all add: insert_ignore_present insert_ignore_absent has_categoria_append js_get_Cons pg_eq_def)

lemma insert_ignore_mono:
  "has_categoria rt m (tbl_categoria st) \<Longrightarrow> has_categoria rt m (tbl_categoria (insert_categoria_ignore rt n st))"
  by (cases "has_categoria rt n (tbl_categoria st)")
     (simp_all add: insert_ignore_present insert_ignore_absent has_categoria_append)

text \<open>The loop without faults.\<close>

lemma seed_loop_no_fault:
  "seed_loop rt no_fault i ns st = (None, foldl (\<lambda>s n. insert_categoria_ignore rt (JStr n) s) st ns)"
  by (induction ns arbitrary: i st) (simp_all add: no_fault_def)

lemma foldl_mono:
  "has_categoria rt m (tbl_categoria st) \<Longrightarrow>
   has_categoria rt m (tbl_categoria (foldl (\<lambda>s n. insert_categoria_ignore rt (JStr n) s) st ns))"
  by (induction ns arbitrary: st) (simp_all add: insert_ignore_mono)

lemma foldl_has:
  "n \<in> set ns \<Longrightarrow>
   has_categoria rt (JStr n) (tbl_categoria (foldl (\<lambda>s n. insert_categoria_ignore rt (JStr n) s) st ns))"
proof (induction ns arbitrary: st)
  case Nil
  then show ?case by simp
next
  case (Cons a ns)
  show ?case
  proof (cases "n = a")
    case True
    have "has_categoria rt (JStr a) (tbl_categoria (insert_categoria_ignore rt (JStr a) st))"
      by (rule insert_ignore_has) (simp add: nullish_def)
    with True show ?thesis by (simp add: foldl_mono)
  next
    case False
    with Cons show ?thesis by simp
  qed
qed

lemma foldl_all_present:
  "\<forall>n \<in> set ns. has_categoria rt (JStr n) (tbl_categoria st) \<Longrightarrow>
   tbl_categoria (foldl (\<lambda>s n. insert_categoria_ignore rt (JStr n) s) st ns) = tbl_categoria st"
proof (induction ns arbitrary: st)
  case Nil
  then show ?case by simp
next
  case (Cons a ns)
  then have t: "tbl_categoria (insert_categoria_ignore rt (JStr a) st) = tbl_categoria st"
    by (simp add: insert_ignore_present)
  with Cons.prems have "\<forall>n \<in> set ns. has_categoria rt (JStr n) (tbl_categoria (insert_categoria_ignore rt (JStr a) st))"
    by simp
  from Cons.IH [OF this] t show ?case by simp
qed

text \<open>Old rows stay in place, new rows carry default names that were absent.\<close>

lemma foldl_extends:
  "\<exists>new. tbl_categoria (foldl (\<lambda>s n. insert_categoria_ignore rt (JStr n) s) st ns) = tbl_categoria st @ new
     \<and> (\<forall>r \<in> set new. \<exists>n \<in> set ns. js_get r ''nombre'' = JStr n \<and> \<not> has_categoria rt (JStr n) (tbl_categoria st))"
proof (induction ns arbitrary: st)
  case Nil
  then show ?case by simp
next
  case (Cons a ns)
  let ?st = "insert_categoria_ignore rt (JStr a) st"
  from Cons [of ?st] obtain new where
    n1: "tbl_categoria (foldl (\<lambda>s n. insert_categoria_ignore rt (JStr n) s) ?st ns) = tbl_categoria ?st @ new"
    and n2: "\<forall>r \<in> set new. \<exists>n \<in> set ns. js_get r ''nombre'' = JStr n \<and> \<not> has_categoria rt (JStr n) (tbl_categoria ?st)"
    by blast
  from n2 have n3: "\<forall>r \<in> set new. \<exists>n \<in> set (a # ns). js_get r ''nombre'' = JStr n \<and> \<not> has_categoria rt (JStr n) (tbl_categoria st)"
    using insert_ignore_mono [of rt _ st "JStr a"] by fastforce
  show ?case
  proof (cases "has_categoria rt (JStr a) (tbl_categoria st)")
    case True
    with n1 n3 show ?thesis by (auto simp add: insert_ignore_present)
  next
    case False
    let ?row = "[(''id'', JInt (seq_categoria_id st)), (''nombre'', JStr a)]"
    from False n1 have "tbl_categoria (foldl (\<lambda>s n. insert_categoria_ignore rt (JStr n) s) st (a # ns))
        = tbl_categoria st @ (?row # new)"
      by (simp add: insert_ignore_absent)
    moreover from False n3 have "\<forall>r \<in> set (?row # new). \<exists>n \<in> set (a # ns). js_get r ''nombre'' = JStr n
        \<and> \<not> has_categoria rt (JStr n) (tbl_categoria st)"
      by (simp add: js_get_Cons)
    ultimately show ?thesis by blast
  qed
qed

lemma map_insort_key: "map g (insort_key (\<lambda>x. f (g x)) x xs) = insort_key f (g x) (map g xs)"
  by (induction xs) simp_all

lemma map_sort_key: "map g (sort_key (\<lambda>x. f (g x)) xs) = sort_key f (map g xs)"
  by (induction xs) (simp_all add: map_insort_key)

lemma select_nombres_sorted:
  "map (\<lambda>r. js_get r ''nombre'') (select_nombres rt st) =
     sort_key (pg_order rt) (map (\<lambda>r. js_get r ''nombre'') (tbl_categoria st))"
  by (simp add: select_nombres_def map_sort_key [of "\<lambda>r. js_get r ''nombre''" "pg_order rt"] comp_def js_get_Cons)

lemma seed_no_fault:
  "post_categorias_seed rt no_fault st =
     (json 200 (JObj [(''ok'', JBool True),
                      (''categorias'', JArr (sort_key (pg_order rt)
                         (map (\<lambda>r. js_get r ''nombre'')
                            (tbl_categoria (foldl (\<lambda>s n. insert_categoria_ignore rt (JStr n) s) st defaults)))))]),
      foldl (\<lambda>s n. insert_categoria_ignore rt (JStr n) s) st defaults)"
  unfolding post_categorias_seed_def seed_loop_no_fault
  by (simp add: select_nombres_sorted no_fault_def)

text \<open>
  Claim C4. \<open>POST /categorias/seed\<close> is idempotent. From every state of the table, and the
  store executing the statements: the call answers 200 (no duplicate-name error); it leaves
  the old rows in place and appends rows only for default names that were not present;
  afterwards every default name is present; a second call in a row answers 200 too and
  leaves the table of the first; and each call returns the names of the table as it then
  is, in the store's order.
\<close>

theorem seed_idempotent:
  "res_status (fst (post_categorias_seed rt no_fault st)) = 200
   \<and> res_status (fst (post_categorias_seed rt no_fault (snd (post_categorias_seed rt no_fault st)))) = 200
   \<and> (\<exists>new. tbl_categoria (snd (post_categorias_seed rt no_fault st)) = tbl_categoria st @ new
          \<and> (\<forall>r \<in> set new. \<exists>n \<in> set defaults.
                js_get r ''nombre'' = JStr n \<and> \<not> has_categoria rt (JStr n) (tbl_categoria st)))
   \<and> (\<forall>n \<in> set defaults. has_categoria rt (JStr n) (tbl_categoria (snd (post_categorias_seed rt no_fault st))))
   \<and> tbl_categoria (snd (post_categorias_seed rt no_fault (snd (post_categorias_seed rt no_fault st))))
       = tbl_categoria (snd (post_categorias_seed rt no_fault st))
   \<and> res_body (fst (post_categorias_seed rt no_fault st)) =
       JObj [(''ok'', JBool True),
             (''categorias'', JArr (sort_key (pg_order rt) (map (\<lambda>r. js_get r ''nombre'')
                (tbl_categoria (snd (post_categorias_seed rt no_fault st))))))]
   \<and> res_body (fst (post_categorias_seed rt no_fault (snd (post_categorias_seed rt no_fault st))))
       = res_body (fst (post_categorias_seed rt no_fault st))"
proof -
  let ?seed = "\<lambda>s. foldl (\<lambda>s n. insert_categoria_ignore rt (JStr n) s) s defaults"
  have present: "\<forall>n \<in> set defaults. has_categoria rt (JStr n) (tbl_categoria (?seed st))"
    by (simp add: foldl_has)
  then have again: "tbl_categoria (?seed (?seed st)) = tbl_categoria (?seed st)"
    by (rule foldl_all_present)
  from foldl_extends [of rt st defaults]
  have extends: "\<exists>new. tbl_categoria (?seed st) = tbl_categoria st @ new
          \<and> (\<forall>r \<in> set new. \<exists>n \<in> set defaults.
                js_get r ''nombre'' = JStr n \<and> \<not> has_categoria rt (JStr n) (tbl_categoria st))" .
  show ?thesis
    unfolding seed_no_fault fst_conv snd_conv again
    using present extends by (simp add: json_def)
qed

theorem seed_idempotent_witness:
  "res_status (fst (post_categorias_seed rt0 no_fault st1)) = 200
   \<and> map (\<lambda>r. js_get r ''nombre'')
         (tbl_categoria (snd (post_categorias_seed rt0 no_fault (snd (post_categorias_seed rt0 no_fault st1)))))
       = [JStr ''Ropa'', JStr (''Electr'' @ [CHR 0xC3, CHR 0xB3] @ ''nica''), JStr ''Hogar'', JStr ''Gamer'']
   \<and> has_categoria rt0 (JStr ''Gamer'') (tbl_categoria (snd (post_categorias_seed rt0 no_fault st1)))"
proof -
  have "tbl_categoria (snd (post_categorias_seed rt0 no_fault st1)) =
      [[(''id'', JInt 1), (''nombre'', JStr ''Ropa'')],
       [(''id'', JInt 2), (''nombre'', JStr (''Electr'' @ [CHR 0xC3, CHR 0xB3] @ ''nica''))],
       [(''id'', JInt 4), (''nombre'', JStr ''Hogar'')],
       [(''id'', JInt 5), (''nombre'', JStr ''Gamer'')]]"
    unfolding seed_no_fault snd_conv
    by (simp add: defaults_def insert_categoria_ignore_def has_categoria_def eval_defs)
  moreover have "''Gamer'' \<in> set defaults"
    by (simp add: defaults_def)
  ultimately show ?thesis
    using seed_idempotent [of rt0 st1] by (simp add: js_get_def)
qed

section \<open>Creating a receipt\<close>

text \<open>Reading a field that may come as JSON text, and the two rejections of the validation.\<close>

lemma parse_if_string_array:
  "v = JArr ys \<or> (\<exists>s. v = JStr s \<and> JSON_parse rt s = Some (JArr ys)) \<Longrightarrow>
   parse_if_string rt v = Some (JArr ys)"
  by (auto simp add: parse_if_string_def)

lemma parse_if_string_object:
  "v = JObj obj \<or> (\<exists>s. v = JStr s \<and> JSON_parse rt s = Some (JObj obj)) \<Longrightarrow>
   parse_if_string rt v = Some (JObj obj)"
  by (auto simp add: parse_if_string_def)

lemma parse_if_string_no_array:
  assumes "((\<forall>s. v \<noteq> JStr s) \<and> (\<forall>x xs. v \<noteq> JArr (x # xs)))
           \<or> (\<exists>s. v = JStr s \<and> (\<forall>x xs. JSON_parse rt s \<noteq> Some (JArr (x # xs))))"
  shows "\<forall>x xs. parse_if_string rt v \<noteq> Some (JArr (x # xs))"
  using assms by (cases v) (auto simp add: parse_if_string_def)

lemma post_boletas_rejects_productos:
  assumes "\<forall>x xs. parse_if_string rt (js_get body ''productos'') \<noteq> Some (JArr (x # xs))"
  shows "res_status (fst (post_boletas rt flt body st)) = 400 \<and> snd (post_boletas rt flt body st) = st"
proof (cases "parse_if_string rt (js_get body ''comprador'')")
  case None
  then show ?thesis by (simp add: post_boletas_def json_def)
next
  case comprador: (Some comprador)
  show ?thesis
  proof (cases "parse_if_string rt (js_get body ''productos'')")
    case None
    with comprador show ?thesis by (simp add: post_boletas_def json_def)
  next
    case (Some productos)
    with assms have "\<not> isArray productos \<or> array_length productos = 0"
      by (cases productos; simp) (metis list.exhaust)
    with Some comprador show ?thesis
      by (auto simp add: post_boletas_def json_def Let_def)
  qed
qed

lemma post_boletas_rejects_bad_json:
  assumes "parse_if_string rt (js_get body ''comprador'') = None
           \<or> parse_if_string rt (js_get body ''productos'') = None"
  shows "res_status (fst (post_boletas rt flt body st)) = 400 \<and> snd (post_boletas rt flt body st) = st"
  using assms by (auto simp: post_boletas_def json_def Let_def split: option.splits)

text \<open>Past the validation, the answer is that of the insert.\<close>

lemma post_boletas_valid:
  assumes "parse_if_string rt (js_get body ''productos'') = Some (JArr (x # xs))"
    and "parse_if_string rt (js_get body ''comprador'') = Some (JObj c)"
    and "truthy (js_get c ''nombre'')" and "truthy (js_get c ''correo'')"
    and "flt 0 = None"
  shows "post_boletas rt flt body st =
     (case insert_boleta rt (fechaVal rt (js_get body ''fecha'')) (JSON_stringify rt (JObj c))
             (JSON_stringify rt (JArr (x # xs))) (totalNum rt (js_get body ''total''))
             (uid rt (js_get body ''user_id'')) st of
        Inl error \<Rightarrow> (post_boletas_catch error, st)
      | Inr (boleta, st') \<Rightarrow>
          (json 201 (JObj (AList.update ''total''
             (js_or (JNum (Number rt (js_get boleta ''total''))) (JNum (Fin 0))) boleta)), st'))"
  using assms by (simp add: post_boletas_def Let_def)

lemma insert_boleta_ok:
  assumes "pg_timestamp rt d = None" and "pg_jsonb rt cj = Inr cdoc" and "pg_jsonb rt pj = Inr pdoc"
    and "pg_numeric rt tot = None" and "pg_int4 rt u = Inr key"
  shows "insert_boleta rt d cj pj tot u st =
     Inr ([(''id'', JInt (seq_boleta_id st)), (''numero_compra'', JInt (seq_boleta_numero_compra st)),
           (''fecha'', JDate d), (''comprador'', cdoc), (''productos'', pdoc),
           (''total'', JNum tot), (''user_id'', case key of None \<Rightarrow> JNull | Some z \<Rightarrow> JInt z)],
          st\<lparr>tbl_boleta := tbl_boleta st @
               [[(''id'', JInt (seq_boleta_id st)), (''numero_compra'', JInt (seq_boleta_numero_compra st)),
                 (''fecha'', JDate d), (''comprador'', cdoc), (''productos'', pdoc),
                 (''total'', JNum tot), (''user_id'', case key of None \<Rightarrow> JNull | Some z \<Rightarrow> JInt z)]],
             seq_boleta_id := seq_boleta_id st + 1,
             seq_boleta_numero_compra := seq_boleta_numero_compra st + 1\<rparr>)"
  using assms by (simp add: insert_boleta_def Let_def)

lemma insert_boleta_bad_user:
  "pg_timestamp rt d = None \<Longrightarrow> pg_jsonb rt cj = Inr cdoc \<Longrightarrow> pg_jsonb rt pj = Inr pdoc \<Longrightarrow>
   pg_numeric rt tot = None \<Longrightarrow> pg_int4 rt u = Inl err \<Longrightarrow>
   insert_boleta rt d cj pj tot u st = Inl err"
  by (simp add: insert_boleta_def)

lemma insert_boleta_bad_date:
  "insert_boleta rt InvalidDate cj pj tot u st = Inl invalid_timestamp"
  by (simp add: insert_boleta_def pg_timestamp_def)

lemma uid_absent: "v = JUndefined \<or> v = JNull \<Longrightarrow> pg_int4 rt (uid rt v) = Inr None"
  by (auto simp add: uid_def pg_int4_def)

lemma uid_integer:
  "- 2147483648 \<le> k \<Longrightarrow> k \<le> 2147483647 \<Longrightarrow>
   pg_int4 rt (uid rt (JInt k)) = Inr (if k = 0 then None else Some k)"
  by (simp add: uid_def pg_int4_def JInt_def js_or_def)

lemma uid_fraction:
  "of_int \<lfloor>q\<rfloor> \<noteq> q \<Longrightarrow> pg_int4 rt (uid rt (JNum (Fin q))) = Inl invalid_integer"
  by (auto simp add: uid_def pg_int4_def js_or_def)

lemma floor_five_halves: "\<lfloor>5 / 2 :: rat\<rfloor> = 2"
  by (simp add: floor_eq_iff)

text \<open>
  Claim C1. \<open>POST /boletas\<close>. A \<open>productos\<close> that is missing, no array or an empty
  array, as the value sent or as what the JSON text sent parses to, is answered 400 and no
  receipt is inserted; so is a \<open>comprador\<close> or a \<open>productos\<close> text that is no JSON.
  With \<open>productos\<close> a non-empty array and \<open>comprador\<close> an object with truthy
  \<open>nombre\<close> and \<open>correo\<close>, each sent as the value or as JSON text that parses to it,
  the receipt is inserted and returned with 201 provided the store executes the insert and
  reads its five parameters: \<open>fecha\<close> is then the current time when absent and
  \<open>total\<close> is 0 when absent. The proviso is needed. A \<open>user_id\<close> that the \<open>INT\<close>
  column does not read is answered from the \<open>catch\<close>, 400 when the store's code is
  \<open>22P02\<close> (a fraction such as 2.5) and 500 otherwise, and a \<open>fecha\<close> that is no date is
  answered 500; in both cases no receipt is inserted. What the store does read: a date from
  1970 to the year 9999, an absent or a finite total, an absent or \<open>null\<close> \<open>user_id\<close>
  (stored as \<open>NULL\<close>, like 0) and an integer of 32 bits.
\<close>

theorem post_boletas_checked:
  "(((\<forall>s. js_get body ''productos'' \<noteq> JStr s) \<and> (\<forall>x xs. js_get body ''productos'' \<noteq> JArr (x # xs)))
      \<or> (\<exists>s. js_get body ''productos'' = JStr s \<and> (\<forall>x xs. JSON_parse rt s \<noteq> Some (JArr (x # xs)))) \<longrightarrow>
      res_status (fst (post_boletas rt flt body st)) = 400 \<and> snd (post_boletas rt flt body st) = st)
   \<and> ((\<exists>s. js_get body ''comprador'' = JStr s \<and> JSON_parse rt s = None)
      \<or> (\<exists>s. js_get body ''productos'' = JStr s \<and> JSON_parse rt s = None) \<longrightarrow>
      res_status (fst (post_boletas rt flt body st)) = 400 \<and> snd (post_boletas rt flt body st) = st)
   \<and> ((js_get body ''productos'' = JArr (x # xs)
          \<or> (\<exists>s. js_get body ''productos'' = JStr s \<and> JSON_parse rt s = Some (JArr (x # xs))))
        \<and> (js_get body ''comprador'' = JObj c
          \<or> (\<exists>s. js_get body ''comprador'' = JStr s \<and> JSON_parse rt s = Some (JObj c)))
        \<and> truthy (js_get c ''nombre'') \<and> truthy (js_get c ''correo'') \<and> flt 0 = None
        \<and> pg_timestamp rt (fechaVal rt (js_get body ''fecha'')) = None
        \<and> pg_jsonb rt (JSON_stringify rt (JObj c)) = Inr cdoc
        \<and> pg_jsonb rt (JSON_stringify rt (JArr (x # xs))) = Inr pdoc
        \<and> pg_numeric rt (totalNum rt (js_get body ''total'')) = None
        \<and> pg_int4 rt (uid rt (js_get body ''user_id'')) = Inr key \<longrightarrow>
      (\<exists>row. res_status (fst (post_boletas rt flt body st)) = 201
         \<and> res_body (fst (post_boletas rt flt body st)) =
             JObj (AList.update ''total'' (js_or (JNum (Number rt (js_get row ''total''))) (JNum (Fin 0))) row)
         \<and> tbl_boleta (snd (post_boletas rt flt body st)) = tbl_boleta st @ [row]
         \<and> (\<not> truthy (js_get body ''fecha'') \<longrightarrow> js_get row ''fecha'' = JDate (Date_now rt))
         \<and> (js_get body ''total'' = JUndefined \<longrightarrow> js_get row ''total'' = JNum (Fin 0))
         \<and> js_get row ''comprador'' = cdoc \<and> js_get row ''productos'' = pdoc
         \<and> js_get row ''user_id'' = (case key of None \<Rightarrow> JNull | Some z \<Rightarrow> JInt z)))
   \<and> ((js_get body ''productos'' = JArr (x # xs)
          \<or> (\<exists>s. js_get body ''productos'' = JStr s \<and> JSON_parse rt s = Some (JArr (x # xs))))
        \<and> (js_get body ''comprador'' = JObj c
          \<or> (\<exists>s. js_get body ''comprador'' = JStr s \<and> JSON_parse rt s = Some (JObj c)))
        \<and> truthy (js_get c ''nombre'') \<and> truthy (js_get c ''correo'') \<and> flt 0 = None
        \<and> pg_timestamp rt (fechaVal rt (js_get body ''fecha'')) = None
        \<and> pg_jsonb rt (JSON_stringify rt (JObj c)) = Inr cdoc
        \<and> pg_jsonb rt (JSON_stringify rt (JArr (x # xs))) = Inr pdoc
        \<and> pg_numeric rt (totalNum rt (js_get body ''total'')) = None
        \<and> pg_int4 rt (uid rt (js_get body ''user_id'')) = Inl err \<longrightarrow>
      res_status (fst (post_boletas rt flt body st)) = (if err_code err = Some ''22P02'' then 400 else 500)
         \<and> snd (post_boletas rt flt body st) = st)
   \<and> ((js_get body ''productos'' = JArr (x # xs)
          \<or> (\<exists>s. js_get body ''productos'' = JStr s \<and> JSON_parse rt s = Some (JArr (x # xs))))
        \<and> (js_get body ''comprador'' = JObj c
          \<or> (\<exists>s. js_get body ''comprador'' = JStr s \<and> JSON_parse rt s = Some (JObj c)))
        \<and> truthy (js_get c ''nombre'') \<and> truthy (js_get c ''correo'') \<and> flt 0 = None
        \<and> fechaVal rt (js_get body ''fecha'') = InvalidDate \<longrightarrow>
      res_status (fst (post_boletas rt flt body st)) = 500 \<and> snd (post_boletas rt flt body st) = st)
   \<and> (fechaVal rt (js_get body ''fecha'') = Date t \<and> 0 \<le> t \<and> t < 253402300800000 \<longrightarrow>
      pg_timestamp rt (fechaVal rt (js_get body ''fecha'')) = None)
   \<and> (js_get body ''total'' = JUndefined \<or> Number rt (js_get body ''total'') = Fin p \<longrightarrow>
      pg_numeric rt (totalNum rt (js_get body ''total'')) = None)
   \<and> (js_get body ''user_id'' = JUndefined \<or> js_get body ''user_id'' = JNull \<longrightarrow>
      pg_int4 rt (uid rt (js_get body ''user_id'')) = Inr None)
   \<and> (js_get body ''user_id'' = JInt k \<and> - 2147483648 \<le> k \<and> k \<le> 2147483647 \<longrightarrow>
      pg_int4 rt (uid rt (js_get body ''user_id'')) = Inr (if k = 0 then None else Some k))
   \<and> (js_get body ''user_id'' = JNum (Fin q) \<and> of_int \<lfloor>q\<rfloor> \<noteq> q \<longrightarrow>
      pg_int4 rt (uid rt (js_get body ''user_id'')) = Inl invalid_integer)"
proof -
  have r1: "(((\<forall>s. js_get body ''productos'' \<noteq> JStr s) \<and> (\<forall>x xs. js_get body ''productos'' \<noteq> JArr (x # xs)))
      \<or> (\<exists>s. js_get body ''productos'' = JStr s \<and> (\<forall>x xs. JSON_parse rt s \<noteq> Some (JArr (x # xs))))) \<longrightarrow>
      (res_status (fst (post_boletas rt flt body st)) = 400 \<and> snd (post_boletas rt flt body st) = st)"
  proof
    assume "((\<forall>s. js_get body ''productos'' \<noteq> JStr s) \<and> (\<forall>x xs. js_get body ''productos'' \<noteq> JArr (x # xs)))
      \<or> (\<exists>s. js_get body ''productos'' = JStr s \<and> (\<forall>x xs. JSON_parse rt s \<noteq> Some (JArr (x # xs))))"
    then have "\<forall>x xs. parse_if_string rt (js_get body ''productos'') \<noteq> Some (JArr (x # xs))"
      by (rule parse_if_string_no_array)
    then show "res_status (fst (post_boletas rt flt body st)) = 400 \<and> snd (post_boletas rt flt body st) = st"
      by (rule post_boletas_rejects_productos)
  qed
  have r2: "((\<exists>s. js_get body ''comprador'' = JStr s \<and> JSON_parse rt s = None)
      \<or> (\<exists>s. js_get body ''productos'' = JStr s \<and> JSON_parse rt s = None)) \<longrightarrow>
      (res_status (fst (post_boletas rt flt body st)) = 400 \<and> snd (post_boletas rt flt body st) = st)"
  proof
    assume "(\<exists>s. js_get body ''comprador'' = JStr s \<and> JSON_parse rt s = None)
      \<or> (\<exists>s. js_get body ''productos'' = JStr s \<and> JSON_parse rt s = None)"
    then have "parse_if_string rt (js_get body ''comprador'') = None \<or> parse_if_string rt (js_get body ''productos'') = None"
      by (auto simp add: parse_if_string_def)
    then show "res_status (fst (post_boletas rt flt body st)) = 400 \<and> snd (post_boletas rt flt body st) = st"
      by (rule post_boletas_rejects_bad_json)
  qed
  have r3: "((js_get body ''productos'' = JArr (x # xs)
          \<or> (\<exists>s. js_get body ''productos'' = JStr s \<and> JSON_parse rt s = Some (JArr (x # xs))))
        \<and> (js_get body ''comprador'' = JObj c
          \<or> (\<exists>s. js_get body ''comprador'' = JStr s \<and> JSON_parse rt s = Some (JObj c)))
        \<and> truthy (js_get c ''nombre'') \<and> truthy (js_get c ''correo'') \<and> flt 0 = None
        \<and> pg_timestamp rt (fechaVal rt (js_get body ''fecha'')) = None
        \<and> pg_jsonb rt (JSON_stringify rt (JObj c)) = Inr cdoc
        \<and> pg_jsonb rt (JSON_stringify rt (JArr (x # xs))) = Inr pdoc
        \<and> pg_numeric rt (totalNum rt (js_get body ''total'')) = None
        \<and> pg_int4 rt (uid rt (js_get body ''user_id'')) = Inr key) \<longrightarrow>
      ((\<exists>row. res_status (fst (post_boletas rt flt body st)) = 201
         \<and> res_body (fst (post_boletas rt flt body st)) =
             JObj (AList.update ''total'' (js_or (JNum (Number rt (js_get row ''total''))) (JNum (Fin 0))) row)
         \<and> tbl_boleta (snd (post_boletas rt flt body st)) = tbl_boleta st @ [row]
         \<and> (\<not> truthy (js_get body ''fecha'') \<longrightarrow> js_get row ''fecha'' = JDate (Date_now rt))
         \<and> (js_get body ''total'' = JUndefined \<longrightarrow> js_get row ''total'' = JNum (Fin 0))
         \<and> js_get row ''comprador'' = cdoc \<and> js_get row ''productos'' = pdoc
         \<and> js_get row ''user_id'' = (case key of None \<Rightarrow> JNull | Some z \<Rightarrow> JInt z)))"
  proof
    assume a: "(js_get body ''productos'' = JArr (x # xs)
          \<or> (\<exists>s. js_get body ''productos'' = JStr s \<and> JSON_parse rt s = Some (JArr (x # xs))))
        \<and> (js_get body ''comprador'' = JObj c
          \<or> (\<exists>s. js_get body ''comprador'' = JStr s \<and> JSON_parse rt s = Some (JObj c)))
        \<and> truthy (js_get c ''nombre'') \<and> truthy (js_get c ''correo'') \<and> flt 0 = None
        \<and> pg_timestamp rt (fechaVal rt (js_get body ''fecha'')) = None
        \<and> pg_jsonb rt (JSON_stringify rt (JObj c)) = Inr cdoc
        \<and> pg_jsonb rt (JSON_stringify rt (JArr (x # xs))) = Inr pdoc
        \<and> pg_numeric rt (totalNum rt (js_get body ''total'')) = None
        \<and> pg_int4 rt (uid rt (js_get body ''user_id'')) = Inr key"
    then have p: "parse_if_string rt (js_get body ''productos'') = Some (JArr (x # xs))"
      and c: "parse_if_string rt (js_get body ''comprador'') = Some (JObj c)"
      by (simp_all add: parse_if_string_array parse_if_string_object)
    let ?row = "[(''id'', JInt (seq_boleta_id st)), (''numero_compra'', JInt (seq_boleta_numero_compra st)),
             (''fecha'', JDate (fechaVal rt (js_get body ''fecha''))),
             (''comprador'', cdoc), (''productos'', pdoc),
             (''total'', JNum (totalNum rt (js_get body ''total''))),
             (''user_id'', case key of None \<Rightarrow> JNull | Some z \<Rightarrow> JInt z)]"
    from a have run: "post_boletas rt flt body st =
        (json 201 (JObj (AList.update ''total''
               (js_or (JNum (Number rt (js_get ?row ''total''))) (JNum (Fin 0))) ?row)),
         st\<lparr>tbl_boleta := tbl_boleta st @ [?row], seq_boleta_id := seq_boleta_id st + 1,
               seq_boleta_numero_compra := seq_boleta_numero_compra st + 1\<rparr>)"
      by (simp add: post_boletas_valid [OF p c] insert_boleta_ok [where key = key and cdoc = cdoc and pdoc = pdoc])
    have cols: "\<not> truthy (js_get body ''fecha'') \<longrightarrow> js_get ?row ''fecha'' = JDate (Date_now rt)"
      "js_get body ''total'' = JUndefined \<longrightarrow> js_get ?row ''total'' = JNum (Fin 0)"
      "js_get ?row ''comprador'' = cdoc" "js_get ?row ''productos'' = pdoc"
      "js_get ?row ''user_id'' = (case key of None \<Rightarrow> JNull | Some z \<Rightarrow> JInt z)"
      by (simp_all add: js_get_Cons fechaVal_def totalNum_def)
    show "\<exists>row. res_status (fst (post_boletas rt flt body st)) = 201
         \<and> res_body (fst (post_boletas rt flt body st)) =
             JObj (AList.update ''total'' (js_or (JNum (Number rt (js_get row ''total''))) (JNum (Fin 0))) row)
         \<and> tbl_boleta (snd (post_boletas rt flt body st)) = tbl_boleta st @ [row]
         \<and> (\<not> truthy (js_get body ''fecha'') \<longrightarrow> js_get row ''fecha'' = JDate (Date_now rt))
         \<and> (js_get body ''total'' = JUndefined \<longrightarrow> js_get row ''total'' = JNum (Fin 0))
         \<and> js_get row ''comprador'' = cdoc \<and> js_get row ''productos'' = pdoc
         \<and> js_get row ''user_id'' = (case key of None \<Rightarrow> JNull | Some z \<Rightarrow> JInt z)"
      apply (rule exI [of _ ?row])
      apply (intro conjI)
             apply (simp add: run json_def)
            apply (simp add: run json_def)
           apply (simp add: run)
          apply (fact cols(1))
         apply (fact cols(2))
        apply (fact cols(3))
       apply (fact cols(4))
      apply (fact cols(5))
      done
  qed
  have r4: "((js_get body ''productos'' = JArr (x # xs)
          \<or> (\<exists>s. js_get body ''productos'' = JStr s \<and> JSON_parse rt s = Some (JArr (x # xs))))
        \<and> (js_get body ''comprador'' = JObj c
          \<or> (\<exists>s. js_get body ''comprador'' = JStr s \<and> JSON_parse rt s = Some (JObj c)))
        \<and> truthy (js_get c ''nombre'') \<and> truthy (js_get c ''correo'') \<and> flt 0 = None
        \<and> pg_timestamp rt (fechaVal rt (js_get body ''fecha'')) = None
        \<and> pg_jsonb rt (JSON_stringify rt (JObj c)) = Inr cdoc
        \<and> pg_jsonb rt (JSON_stringify rt (JArr (x # xs))) = Inr pdoc
        \<and> pg_numeric rt (totalNum rt (js_get body ''total'')) = None
        \<and> pg_int4 rt (uid rt (js_get body ''user_id'')) = Inl err) \<longrightarrow>
      (res_status (fst (post_boletas rt flt body st)) = (if err_code err = Some ''22P02'' then 400 else 500)
         \<and> snd (post_boletas rt flt body st) = st)"
  proof
    assume a: "(js_get body ''productos'' = JArr (x # xs)
          \<or> (\<exists>s. js_get body ''productos'' = JStr s \<and> JSON_parse rt s = Some (JArr (x # xs))))
        \<and> (js_get body ''comprador'' = JObj c
          \<or> (\<exists>s. js_get body ''comprador'' = JStr s \<and> JSON_parse rt s = Some (JObj c)))
        \<and> truthy (js_get c ''nombre'') \<and> truthy (js_get c ''correo'') \<and> flt 0 = None
        \<and> pg_timestamp rt (fechaVal rt (js_get body ''fecha'')) = None
        \<and> pg_jsonb rt (JSON_stringify rt (JObj c)) = Inr cdoc
        \<and> pg_jsonb rt (JSON_stringify rt (JArr (x # xs))) = Inr pdoc
        \<and> pg_numeric rt (totalNum rt (js_get body ''total'')) = None
        \<and> pg_int4 rt (uid rt (js_get body ''user_id'')) = Inl err"
    then have p: "parse_if_string rt (js_get body ''productos'') = Some (JArr (x # xs))"
      and c: "parse_if_string rt (js_get body ''comprador'') = Some (JObj c)"
      by (simp_all add: parse_if_string_array parse_if_string_object)
    from a show "res_status (fst (post_boletas rt flt body st)) = (if err_code err = Some ''22P02'' then 400 else 500)
         \<and> snd (post_boletas rt flt body st) = st"
      by (simp add: post_boletas_valid [OF p c] insert_boleta_bad_user [where cdoc = cdoc and pdoc = pdoc]
          post_boletas_catch_def json_def)
  qed
  have r5: "((js_get body ''productos'' = JArr (x # xs)
          \<or> (\<exists>s. js_get body ''productos'' = JStr s \<and> JSON_parse rt s = Some (JArr (x # xs))))
        \<and> (js_get body ''comprador'' = JObj c
          \<or> (\<exists>s. js_get body ''comprador'' = JStr s \<and> JSON_parse rt s = Some (JObj c)))
        \<and> truthy (js_get c ''nombre'') \<and> truthy (js_get c ''correo'') \<and> flt 0 = None
        \<and> fechaVal rt (js_get body ''fecha'') = InvalidDate) \<longrightarrow>
      (res_status (fst (post_boletas rt flt body st)) = 500 \<and> snd (post_boletas rt flt body st) = st)"
  proof
    assume a: "(js_get body ''productos'' = JArr (x # xs)
          \<or> (\<exists>s. js_get body ''productos'' = JStr s \<and> JSON_parse rt s = Some (JArr (x # xs))))
        \<and> (js_get body ''comprador'' = JObj c
          \<or> (\<exists>s. js_get body ''comprador'' = JStr s \<and> JSON_parse rt s = Some (JObj c)))
        \<and> truthy (js_get c ''nombre'') \<and> truthy (js_get c ''correo'') \<and> flt 0 = None
        \<and> fechaVal rt (js_get body ''fecha'') = InvalidDate"
    then have p: "parse_if_string rt (js_get body ''productos'') = Some (JArr (x # xs))"
      and c: "parse_if_string rt (js_get body ''comprador'') = Some (JObj c)"
      by (simp_all add: parse_if_string_array parse_if_string_object)
    from a show "res_status (fst (post_boletas rt flt body st)) = 500 \<and> snd (post_boletas rt flt body st) = st"
      by (simp add: post_boletas_valid [OF p c] insert_boleta_bad_date post_boletas_catch_def
          invalid_timestamp_def json_def)
  qed
  have r6: "(fechaVal rt (js_get body ''fecha'') = Date t \<and> 0 \<le> t \<and> t < 253402300800000) \<longrightarrow>
      (pg_timestamp rt (fechaVal rt (js_get body ''fecha'')) = None)"
  proof
    assume "fechaVal rt (js_get body ''fecha'') = Date t \<and> 0 \<le> t \<and> t < 253402300800000"
    then show "pg_timestamp rt (fechaVal rt (js_get body ''fecha'')) = None"
      by (simp add: pg_timestamp_def)
  qed
  have r7: "(js_get body ''total'' = JUndefined \<or> Number rt (js_get body ''total'') = Fin p) \<longrightarrow>
      (pg_numeric rt (totalNum rt (js_get body ''total'')) = None)"
  proof
    assume "js_get body ''total'' = JUndefined \<or> Number rt (js_get body ''total'') = Fin p"
    then show "pg_numeric rt (totalNum rt (js_get body ''total'')) = None"
      by (auto simp add: pg_numeric_def totalNum_def)
  qed
  have r8: "(js_get body ''user_id'' = JUndefined \<or> js_get body ''user_id'' = JNull) \<longrightarrow>
      (pg_int4 rt (uid rt (js_get body ''user_id'')) = Inr None)"
  proof
    assume "js_get body ''user_id'' = JUndefined \<or> js_get body ''user_id'' = JNull"
    then show "pg_int4 rt (uid rt (js_get body ''user_id'')) = Inr None"
      by (rule uid_absent)
  qed
  have r9: "(js_get body ''user_id'' = JInt k \<and> - 2147483648 \<le> k \<and> k \<le> 2147483647) \<longrightarrow>
      (pg_int4 rt (uid rt (js_get body ''user_id'')) = Inr (if k = 0 then None else Some k))"
  proof
    assume "js_get body ''user_id'' = JInt k \<and> - 2147483648 \<le> k \<and> k \<le> 2147483647"
    then show "pg_int4 rt (uid rt (js_get body ''user_id'')) = Inr (if k = 0 then None else Some k)"
      by (simp add: uid_integer)
  qed
  have r10: "(js_get body ''user_id'' = JNum (Fin q) \<and> of_int \<lfloor>q\<rfloor> \<noteq> q) \<longrightarrow>
      (pg_int4 rt (uid rt (js_get body ''user_id'')) = Inl invalid_integer)"
  proof
    assume "js_get body ''user_id'' = JNum (Fin q) \<and> of_int \<lfloor>q\<rfloor> \<noteq> q"
    then show "pg_int4 rt (uid rt (js_get body ''user_id'')) = Inl invalid_integer"
      by (simp add: uid_fraction)
  qed
  show ?thesis
    apply (intro conjI)
    apply (fact r1)
    apply (fact r2)
    apply (fact r3)
    apply (fact r4)
    apply (fact r5)
    apply (fact r6)
    apply (fact r7)
    apply (fact r8)
    apply (fact r9)
    apply (fact r10)
    done
qed

text \<open>
  Without the proviso the claim fails: a receipt with a non-empty \<open>productos\<close> array, a
  \<open>comprador\<close> with \<open>nombre\<close> and \<open>correo\<close>, and the \<open>user_id\<close> 2.5 is answered 400
  and not inserted, although the store raises nothing of its own; with the \<open>fecha\<close>
  \<open>ayer\<close>, which is no date, it is answered 500 and not inserted.
\<close>

theorem post_boletas_fraction_user_counterexample:
  "res_status (fst (post_boletas rt0 no_fault
      [(''comprador'', JObj [(''nombre'', JStr ''Ana''), (''correo'', JStr ''ana@x.cl'')]),
       (''productos'', JArr [JObj [(''id'', JInt 1)]]), (''user_id'', JNum (Fin (5 / 2)))] st0)) = 400
   \<and> tbl_boleta (snd (post_boletas rt0 no_fault
      [(''comprador'', JObj [(''nombre'', JStr ''Ana''), (''correo'', JStr ''ana@x.cl'')]),
       (''productos'', JArr [JObj [(''id'', JInt 1)]]), (''user_id'', JNum (Fin (5 / 2)))] st0)) = []
   \<and> res_status (fst (post_boletas rt0 no_fault
      [(''comprador'', JObj [(''nombre'', JStr ''Ana''), (''correo'', JStr ''ana@x.cl'')]),
       (''productos'', JArr [JObj [(''id'', JInt 1)]]), (''fecha'', JStr ''ayer'')] st0)) = 500
   \<and> tbl_boleta (snd (post_boletas rt0 no_fault
      [(''comprador'', JObj [(''nombre'', JStr ''Ana''), (''correo'', JStr ''ana@x.cl'')]),
       (''productos'', JArr [JObj [(''id'', JInt 1)]]), (''fecha'', JStr ''ayer'')] st0)) = []"
  by (simp add: invalid_timestamp_def post_boletas_def parse_if_string_def js_get_def Let_def no_fault_def insert_boleta_def
      fechaVal_def totalNum_def uid_def js_or_def pg_int4_def pg_timestamp_def pg_numeric_def
      post_boletas_catch_def invalid_integer_def json_def rt0_def st0_def floor_five_halves)

theorem post_boletas_checked_witness:
  "JSON_parse rt0 ''[7]'' = Some (JArr [JNum (Fin 7)])
   \<and> res_status (fst (post_boletas rt0 no_fault
        [(''comprador'', JStr ana_text), (''productos'', JStr ''[7]'')] st0)) = 201
   \<and> length (tbl_boleta (snd (post_boletas rt0 no_fault
        [(''comprador'', JStr ana_text), (''productos'', JStr ''[7]'')] st0))) = 1
   \<and> res_status (fst (post_boletas rt0 no_fault
        [(''comprador'', JStr ana_text), (''productos'', JStr ''[]'')] st0)) = 400
   \<and> res_status (fst (post_boletas rt0 no_fault
        [(''comprador'', JStr ''{''), (''productos'', JArr [JInt 1])] st0)) = 400
   \<and> res_status (fst (post_boletas rt0 no_fault
        [(''comprador'', JObj [(''nombre'', JStr ''Ana''), (''correo'', JStr ''ana@x.cl'')]),
         (''productos'', JArr [JInt 1]), (''user_id'', JInt 3)] st0)) = 201
   \<and> res_status (fst (post_boletas rt0 no_fault
        [(''comprador'', JObj [(''nombre'', JStr ''Ana''), (''correo'', JStr ''ana@x.cl'')]),
         (''productos'', JArr [JInt 1]), (''user_id'', JNum (Fin (5 / 2)))] st0)) = 400
   \<and> res_status (fst (post_boletas rt0 no_fault
        [(''comprador'', JObj [(''nombre'', JStr ''Ana''), (''correo'', JStr ''ana@x.cl'')]),
         (''productos'', JArr [JInt 1]), (''fecha'', JStr ''ayer'')] st0)) = 500"
proof -
  let ?c = "[(''nombre'', JStr ''Ana''), (''correo'', JStr ''ana@x.cl'')]"
  let ?A = "[(''comprador'', JStr ana_text), (''productos'', JStr ''[7]'')]"
  let ?B = "[(''comprador'', JStr ana_text), (''productos'', JStr ''[]'')]"
  let ?C = "[(''comprador'', JStr ''{''), (''productos'', JArr [JInt 1])]"
  let ?F = "[(''comprador'', JObj ?c), (''productos'', JArr [JInt 1]), (''user_id'', JInt 3)]"
  let ?D = "[(''comprador'', JObj ?c), (''productos'', JArr [JInt 1]), (''user_id'', JNum (Fin (5 / 2)))]"
  let ?E = "[(''comprador'', JObj ?c), (''productos'', JArr [JInt 1]), (''fecha'', JStr ''ayer'')]"
  have parse: "JSON_parse rt0 ''[7]'' = Some (JArr [JNum (Fin 7)])"
    "JSON_parse rt0 ''[]'' = Some (JArr [])" "JSON_parse rt0 ''{'' = None"
    "JSON_parse rt0 ana_text = Some (JObj ?c)"
    by (simp_all add: rt0_def ana_text_def quoted_def)
  have docs: "pg_jsonb rt0 (JSON_stringify rt0 v) = Inr (JStr ''{}'')" for v
    by (simp add: rt0_def)
  have now: "fechaVal rt0 JUndefined = Date 0" and bad: "fechaVal rt0 (JStr ''ayer'') = InvalidDate"
    by (simp_all add: fechaVal_def rt0_def)
  have names: "truthy (js_get ?c ''nombre'')" "truthy (js_get ?c ''correo'')" "no_fault 0 = None"
    by (simp_all add: js_get_def no_fault_def)
  note inst = post_boletas_checked [where rt = rt0 and flt = no_fault and st = st0 and c = ?c
      and cdoc = "JStr ''{}''" and pdoc = "JStr ''{}''" and xs = "[]" and t = 0 and p = 0]
  note A = inst [where body = ?A and x = "JNum (Fin 7)" and key = None]
  have A6: "pg_timestamp rt0 (fechaVal rt0 (js_get ?A ''fecha'')) = None"
    using A [THEN conjunct2, THEN conjunct2, THEN conjunct2, THEN conjunct2, THEN conjunct2, THEN conjunct1]
    by (simp add: js_get_def now)
  have A7: "pg_numeric rt0 (totalNum rt0 (js_get ?A ''total'')) = None"
    using A [THEN conjunct2, THEN conjunct2, THEN conjunct2, THEN conjunct2, THEN conjunct2, THEN conjunct2,
        THEN conjunct1]
    by (simp add: js_get_def)
  have A8: "pg_int4 rt0 (uid rt0 (js_get ?A ''user_id'')) = Inr None"
    using A [THEN conjunct2, THEN conjunct2, THEN conjunct2, THEN conjunct2, THEN conjunct2, THEN conjunct2,
        THEN conjunct2, THEN conjunct1]
    by (simp add: js_get_def)
  have A0: "js_get ?A ''productos'' = JStr ''[7]''" "js_get ?A ''comprador'' = JStr ana_text"
    by (simp_all add: js_get_def)
  have "res_status (fst (post_boletas rt0 no_fault ?A st0)) = 201
      \<and> length (tbl_boleta (snd (post_boletas rt0 no_fault ?A st0))) = 1"
    apply (rule exE [OF mp [OF A [THEN conjunct2, THEN conjunct2, THEN conjunct1]]])
     apply (simp add: A0 A6 A7 A8 parse docs names)
    apply (elim conjE)
    apply (simp add: st0_def)
    done
  then have 1: "res_status (fst (post_boletas rt0 no_fault ?A st0)) = 201"
    and 2: "length (tbl_boleta (snd (post_boletas rt0 no_fault ?A st0))) = 1"
    by simp_all
  have B0: "js_get ?B ''productos'' = JStr ''[]''" by (simp add: js_get_def)
  from inst [where body = ?B, THEN conjunct1] B0 parse
  have 3: "res_status (fst (post_boletas rt0 no_fault ?B st0)) = 400" by simp
  have C0: "js_get ?C ''comprador'' = JStr ''{''" by (simp add: js_get_def)
  from inst [where body = ?C, THEN conjunct2, THEN conjunct1] C0 parse
  have 4: "res_status (fst (post_boletas rt0 no_fault ?C st0)) = 400" by simp
  have obj: "js_get body ''productos'' = JArr [JInt 1]" "js_get body ''comprador'' = JObj ?c"
    "pg_timestamp rt0 (fechaVal rt0 (js_get body ''fecha'')) = None"
    "pg_numeric rt0 (totalNum rt0 (js_get body ''total'')) = None"
    if "body = ?F \<or> body = ?D" for body
    using that by (auto simp add: js_get_def now pg_timestamp_def pg_numeric_def totalNum_def)
  note F = inst [where body = ?F and x = "JInt 1" and key = "Some 3" and k = 3]
  have F9: "pg_int4 rt0 (uid rt0 (js_get ?F ''user_id'')) = Inr (Some 3)"
    using F [THEN conjunct2, THEN conjunct2, THEN conjunct2, THEN conjunct2, THEN conjunct2, THEN conjunct2,
        THEN conjunct2, THEN conjunct2, THEN conjunct1]
    by (simp add: js_get_def)
  have 5: "res_status (fst (post_boletas rt0 no_fault ?F st0)) = 201"
    apply (rule exE [OF mp [OF F [THEN conjunct2, THEN conjunct2, THEN conjunct1]]])
     apply (simp add: F9 obj [of ?F] docs names)
    apply (elim conjE)
    apply assumption
    done
  note D = inst [where body = ?D and x = "JInt 1" and err = invalid_integer and q = "5 / 2"]
  have D10: "pg_int4 rt0 (uid rt0 (js_get ?D ''user_id'')) = Inl invalid_integer"
    using D [THEN conjunct2, THEN conjunct2, THEN conjunct2, THEN conjunct2, THEN conjunct2, THEN conjunct2,
        THEN conjunct2, THEN conjunct2, THEN conjunct2]
    by (simp add: js_get_def floor_five_halves)
  from D [THEN conjunct2, THEN conjunct2, THEN conjunct2, THEN conjunct1] D10 obj [of ?D] docs names
  have 6: "res_status (fst (post_boletas rt0 no_fault ?D st0)) = 400"
    by (simp add: invalid_integer_def)
  have E0: "js_get ?E ''productos'' = JArr [JInt 1]" "js_get ?E ''comprador'' = JObj ?c"
    "fechaVal rt0 (js_get ?E ''fecha'') = InvalidDate"
    by (simp_all add: js_get_def bad)
  from inst [where body = ?E and x = "JInt 1", THEN conjunct2, THEN conjunct2, THEN conjunct2, THEN conjunct2,
      THEN conjunct1] E0 names
  have 7: "res_status (fst (post_boletas rt0 no_fault ?E st0)) = 500" by simp
  from parse(1) 1 2 3 4 5 6 7 show ?thesis
    apply (intro conjI)
    apply assumption+
    done
qed

section \<open>Deleting a category\<close>

lemma js_get_clear_categoria:
  "js_get (clear_categoria rt nombre p) ''categoria'' =
     (if pg_eq rt (js_get p ''categoria'') nombre then JNull else js_get p ''categoria'')"
  by (simp add: clear_categoria_def js_get_update)

lemma cleared_no_match: "\<not> pg_eq rt (js_get (clear_categoria rt nombre p) ''categoria'') nombre"
  by (simp add: js_get_clear_categoria) (simp add: pg_eq_def nullish_def)

lemma delete_categorias_unread:
  assumes "pg_int4 rt (JStr cid) = Inl err"
  shows "delete_categorias_id rt flt cid st = (delete_categorias_catch, st)"
  using assms by (simp add: delete_categorias_id_def split: option.splits)

lemma delete_categorias_missing:
  assumes "pg_int4 rt (JStr cid) = Inr (Some z)"
    and "\<forall>r \<in> set (tbl_categoria st). js_get r ''id'' \<noteq> JInt z" and "flt 0 = None"
  shows "delete_categorias_id rt flt cid st =
           (json 404 (message (''Categor'' @ [CHR 0xC3, CHR 0xAD] @ ''a no encontrada'')), st)"
proof -
  from assms(2) have "filter (\<lambda>r. js_get r ''id'' = JInt z) (tbl_categoria st) = []"
    by (simp add: filter_empty_conv)
  with assms(1,3) show ?thesis by (simp add: delete_categorias_id_def int_is_Some)
qed

lemma delete_categorias_found:
  assumes "pg_int4 rt (JStr cid) = Inr (Some z)"
    and "filter (\<lambda>r. js_get r ''id'' = JInt z) (tbl_categoria st) = row # others"
    and "flt 0 = None" and "flt 2 = None"
  shows "delete_categorias_id rt flt cid st =
     (json 200 (JObj [(''ok'', JBool True)]),
      st\<lparr>tbl_producto := (case flt 1 of Some e \<Rightarrow> tbl_producto st
                             | None \<Rightarrow> map (clear_categoria rt (js_get row ''nombre'')) (tbl_producto st)),
         tbl_categoria := filter (\<lambda>r. js_get r ''id'' \<noteq> JInt z) (tbl_categoria st)\<rparr>)"
  using assms by (cases "flt 1") (simp_all add: delete_categorias_id_def Let_def int_is_Some)

lemma post_categorias_fresh:
  assumes "n \<noteq> []" and "String_trim rt n = n" and "\<not> has_categoria rt (JStr n) (tbl_categoria st)"
  shows "post_categorias rt no_fault [(''nombre'', JStr n)] st =
     (json 201 (JObj [(''id'', JInt (seq_categoria_id st)), (''nombre'', JStr n)]),
      st\<lparr>tbl_categoria := tbl_categoria st @ [[(''id'', JInt (seq_categoria_id st)), (''nombre'', JStr n)]],
         seq_categoria_id := seq_categoria_id st + 1\<rparr>)"
  using assms
  by (simp add: post_categorias_def insert_categoria_def no_fault_def Let_def js_get_Cons String_def)

text \<open>
  Claim C5. \<open>DELETE /categorias/:id\<close>, for an id that the \<open>SERIAL\<close> column reads as an
  integer (a text of decimal digits within 32 bits is one). If no category has that id
  and the store executes the lookup, the answer is 404 and the store is unchanged.
  Otherwise, the lookup and the final delete executing: the clean-up sets \<open>categoria\<close> to
  \<open>NULL\<close> on every product whose \<open>categoria\<close> is the name of the category and leaves the
  other products as they are, a throw of the clean-up is swallowed and leaves the products
  untouched without aborting, the rows with the id are deleted and \<open>{ok: true}\<close> is
  returned; the name being held by no other row, a create with it is then answered 201 and
  appends it. An id that the column does not read (a text with no digit, such as
  \<open>abc\<close>) is answered 500 with the store unchanged, whether or not a category exists.
\<close>

theorem delete_categoria_cascade:
  "(pg_int4 rt (JStr cid) = Inr (Some z)
      \<and> (\<forall>r \<in> set (tbl_categoria st). js_get r ''id'' \<noteq> JInt z) \<and> flt 0 = None \<longrightarrow>
      delete_categorias_id rt flt cid st =
        (json 404 (message (''Categor'' @ [CHR 0xC3, CHR 0xAD] @ ''a no encontrada'')), st))
   \<and> (pg_int4 rt (JStr cid) = Inl err \<or> \<not> list_ex is_digit cid \<longrightarrow>
        res_status (fst (delete_categorias_id rt flt cid st)) = 500
        \<and> snd (delete_categorias_id rt flt cid st) = st)
   \<and> (cid \<noteq> [] \<and> list_all is_digit cid \<and> int (dec_val cid) \<le> 2147483647 \<longrightarrow>
        pg_int4 rt (JStr cid) = Inr (Some (int (dec_val cid))))
   \<and> (pg_int4 rt (JStr cid) = Inr (Some z)
        \<and> filter (\<lambda>r. js_get r ''id'' = JInt z) (tbl_categoria st) = row # others
        \<and> flt 0 = None \<and> flt 2 = None \<longrightarrow>
      fst (delete_categorias_id rt flt cid st) = json 200 (JObj [(''ok'', JBool True)])
      \<and> tbl_categoria (snd (delete_categorias_id rt flt cid st))
          = filter (\<lambda>r. js_get r ''id'' \<noteq> JInt z) (tbl_categoria st)
      \<and> (flt 1 = None \<longrightarrow>
            tbl_producto (snd (delete_categorias_id rt flt cid st))
              = map (clear_categoria rt (js_get row ''nombre'')) (tbl_producto st)
            \<and> (\<forall>i < length (tbl_producto st).
                  js_get (tbl_producto (snd (delete_categorias_id rt flt cid st)) ! i) ''categoria'' =
                    (if pg_eq rt (js_get (tbl_producto st ! i) ''categoria'') (js_get row ''nombre'')
                     then JNull else js_get (tbl_producto st ! i) ''categoria''))
            \<and> (\<forall>p \<in> set (tbl_producto (snd (delete_categorias_id rt flt cid st))).
                  \<not> pg_eq rt (js_get p ''categoria'') (js_get row ''nombre'')))
      \<and> (flt 1 \<noteq> None \<longrightarrow> tbl_producto (snd (delete_categorias_id rt flt cid st)) = tbl_producto st)
      \<and> (js_get row ''nombre'' = JStr n \<and> n \<noteq> [] \<and> String_trim rt n = n
           \<and> (\<forall>r \<in> set (tbl_categoria st). pg_eq rt (js_get r ''nombre'') (JStr n) \<longrightarrow>
                  js_get r ''id'' = JInt z) \<longrightarrow>
           res_status (fst (post_categorias rt no_fault [(''nombre'', JStr n)]
                              (snd (delete_categorias_id rt flt cid st)))) = 201
           \<and> map (\<lambda>r. js_get r ''nombre'')
                (tbl_categoria (snd (post_categorias rt no_fault [(''nombre'', JStr n)]
                              (snd (delete_categorias_id rt flt cid st)))))
               = map (\<lambda>r. js_get r ''nombre'')
                   (filter (\<lambda>r. js_get r ''id'' \<noteq> JInt z) (tbl_categoria st)) @ [JStr n]))"
proof (intro conjI impI)
  assume "pg_int4 rt (JStr cid) = Inr (Some z)
      \<and> (\<forall>r \<in> set (tbl_categoria st). js_get r ''id'' \<noteq> JInt z) \<and> flt 0 = None"
  then show "delete_categorias_id rt flt cid st =
        (json 404 (message (''Categor'' @ [CHR 0xC3, CHR 0xAD] @ ''a no encontrada'')), st)"
    by (simp add: delete_categorias_missing)
next
  assume "pg_int4 rt (JStr cid) = Inl err \<or> \<not> list_ex is_digit cid"
  then obtain e where e: "pg_int4 rt (JStr cid) = Inl e"
    using pg_int4_no_digit [of cid rt] by blast
  from delete_categorias_unread [OF e]
  show "res_status (fst (delete_categorias_id rt flt cid st)) = 500"
    and "snd (delete_categorias_id rt flt cid st) = st"
    by (simp_all add: delete_categorias_catch_def json_def)
next
  assume "cid \<noteq> [] \<and> list_all is_digit cid \<and> int (dec_val cid) \<le> 2147483647"
  then show "pg_int4 rt (JStr cid) = Inr (Some (int (dec_val cid)))"
    by (simp add: pg_int4_digits)
next
  assume a: "pg_int4 rt (JStr cid) = Inr (Some z)
        \<and> filter (\<lambda>r. js_get r ''id'' = JInt z) (tbl_categoria st) = row # others
        \<and> flt 0 = None \<and> flt 2 = None"
  then have d: "delete_categorias_id rt flt cid st =
     (json 200 (JObj [(''ok'', JBool True)]),
      st\<lparr>tbl_producto := (case flt 1 of Some e \<Rightarrow> tbl_producto st
                             | None \<Rightarrow> map (clear_categoria rt (js_get row ''nombre'')) (tbl_producto st)),
         tbl_categoria := filter (\<lambda>r. js_get r ''id'' \<noteq> JInt z) (tbl_categoria st)\<rparr>)"
    by (simp add: delete_categorias_found)
  show "fst (delete_categorias_id rt flt cid st) = json 200 (JObj [(''ok'', JBool True)])"
    and t: "tbl_categoria (snd (delete_categorias_id rt flt cid st))
          = filter (\<lambda>r. js_get r ''id'' \<noteq> JInt z) (tbl_categoria st)"
    by (simp_all add: d)
  {
    assume "flt 1 = None"
    then show p: "tbl_producto (snd (delete_categorias_id rt flt cid st))
              = map (clear_categoria rt (js_get row ''nombre'')) (tbl_producto st)"
      by (simp add: d)
    show "\<forall>i < length (tbl_producto st).
                  js_get (tbl_producto (snd (delete_categorias_id rt flt cid st)) ! i) ''categoria'' =
                    (if pg_eq rt (js_get (tbl_producto st ! i) ''categoria'') (js_get row ''nombre'')
                     then JNull else js_get (tbl_producto st ! i) ''categoria'')"
      by (simp add: p js_get_clear_categoria)
    show "\<forall>p \<in> set (tbl_producto (snd (delete_categorias_id rt flt cid st))).
                  \<not> pg_eq rt (js_get p ''categoria'') (js_get row ''nombre'')"
      by (simp add: p cleared_no_match)
  }
  {
    assume "flt 1 \<noteq> None"
    then show "tbl_producto (snd (delete_categorias_id rt flt cid st)) = tbl_producto st"
      by (auto simp add: d)
  }
  {
    assume b: "js_get row ''nombre'' = JStr n \<and> n \<noteq> [] \<and> String_trim rt n = n
           \<and> (\<forall>r \<in> set (tbl_categoria st). pg_eq rt (js_get r ''nombre'') (JStr n) \<longrightarrow>
                  js_get r ''id'' = JInt z)"
    let ?st' = "snd (delete_categorias_id rt flt cid st)"
    from b have "\<not> has_categoria rt (JStr n) (tbl_categoria ?st')"
      by (auto simp add: t has_categoria_def list_ex_iff)
    with b have c: "post_categorias rt no_fault [(''nombre'', JStr n)] ?st' =
       (json 201 (JObj [(''id'', JInt (seq_categoria_id ?st')), (''nombre'', JStr n)]),
        ?st'\<lparr>tbl_categoria := tbl_categoria ?st' @ [[(''id'', JInt (seq_categoria_id ?st')), (''nombre'', JStr n)]],
           seq_categoria_id := seq_categoria_id ?st' + 1\<rparr>)"
      by (simp add: post_categorias_fresh)
    show "res_status (fst (post_categorias rt no_fault [(''nombre'', JStr n)] ?st')) = 201"
      by (simp add: c json_def)
    show "map (\<lambda>r. js_get r ''nombre'')
                (tbl_categoria (snd (post_categorias rt no_fault [(''nombre'', JStr n)] ?st')))
               = map (\<lambda>r. js_get r ''nombre'')
                   (filter (\<lambda>r. js_get r ''id'' \<noteq> JInt z) (tbl_categoria st)) @ [JStr n]"
      by (simp add: c t js_get_Cons)
  }
qed

text \<open>
  Read for every id that no category has, the 404 fails: with an empty table and the id
  \<open>abc\<close> the answer is 500.
\<close>

theorem delete_categoria_text_id_counterexample:
  "tbl_categoria st0 = [] \<and> res_status (fst (delete_categorias_id rt0 no_fault ''abc'' st0)) = 500"
  by (simp add: delete_categorias_id_def delete_categorias_catch_def no_fault_def pg_int4_def json_def
      is_digit_def st0_def)

theorem delete_categoria_cascade_witness:
  "delete_categorias_id rt0 no_fault ''9'' st1
     = (json 404 (message (''Categor'' @ [CHR 0xC3, CHR 0xAD] @ ''a no encontrada'')), st1)
   \<and> res_status (fst (delete_categorias_id rt0 no_fault ''abc'' st1)) = 500
   \<and> fst (delete_categorias_id rt0 no_fault ''1'' st1) = json 200 (JObj [(''ok'', JBool True)])
   \<and> tbl_categoria (snd (delete_categorias_id rt0 no_fault ''1'' st1)) = []
   \<and> js_get (tbl_producto (snd (delete_categorias_id rt0 no_fault ''1'' st1)) ! 0) ''categoria'' = JNull
   \<and> res_status (fst (post_categorias rt0 no_fault [(''nombre'', JStr ''Ropa'')]
                        (snd (delete_categorias_id rt0 no_fault ''1'' st1)))) = 201
   \<and> fst (delete_categorias_id rt0 (\<lambda>n. if n = 1 then Some (Error (Some ''42P01'') ''no table'') else None) ''1'' st1)
       = json 200 (JObj [(''ok'', JBool True)])
   \<and> tbl_producto (snd (delete_categorias_id rt0
         (\<lambda>n. if n = 1 then Some (Error (Some ''42P01'') ''no table'') else None) ''1'' st1)) = [polera]
   \<and> pg_int4 rt0 (JStr ''9'') = Inr (Some 9)"
proof -
  let ?ropa = "[(''id'', JInt 1), (''nombre'', JStr ''Ropa'')]"
  let ?flt = "\<lambda>n::nat. if n = 1 then Some (Error (Some ''42P01'') ''no table'') else None"
  have read: "pg_int4 rt0 (JStr ''9'') = Inr (Some 9)" "pg_int4 rt0 (JStr ''1'') = Inr (Some 1)"
    "\<not> list_ex is_digit ''abc''"
    by (simp_all add: pg_int4_def is_digit_def dec_val_def digit_val_def)
  have none: "\<forall>r \<in> set (tbl_categoria st1). js_get r ''id'' \<noteq> JInt 9"
    by (simp add: eval_defs)
  have found: "filter (\<lambda>r. js_get r ''id'' = JInt 1) (tbl_categoria st1) = ?ropa # []"
    by (simp add: eval_defs)
  have nf: "no_fault 0 = None" "no_fault 1 = None" "no_fault 2 = None" "?flt 0 = None" "?flt 1 \<noteq> None" "?flt 2 = None"
    by (simp_all add: no_fault_def)
  have name: "js_get ?ropa ''nombre'' = JStr ''Ropa'' \<and> ''Ropa'' \<noteq> [] \<and> String_trim rt0 ''Ropa'' = ''Ropa''
           \<and> (\<forall>r \<in> set (tbl_categoria st1). pg_eq rt0 (js_get r ''nombre'') (JStr ''Ropa'') \<longrightarrow>
                  js_get r ''id'' = JInt 1)"
    by (simp add: eval_defs)
  have prods: "0 < length (tbl_producto st1)" "tbl_producto st1 = [polera]"
    "pg_eq rt0 (js_get (tbl_producto st1 ! 0) ''categoria'') (js_get ?ropa ''nombre'')"
    "filter (\<lambda>r. js_get r ''id'' \<noteq> JInt 1) (tbl_categoria st1) = []"
    by (simp_all add: eval_defs)
  from delete_categoria_cascade [where rt = rt0 and st = st1 and cid = "''9''" and flt = no_fault and z = 9]
    read none nf
  have 1: "delete_categorias_id rt0 no_fault ''9'' st1
     = (json 404 (message (''Categor'' @ [CHR 0xC3, CHR 0xAD] @ ''a no encontrada'')), st1)"
    by blast
  from delete_categoria_cascade [where rt = rt0 and st = st1 and cid = "''abc''" and flt = no_fault] read
  have 0: "res_status (fst (delete_categorias_id rt0 no_fault ''abc'' st1)) = 500"
    by blast
  from delete_categoria_cascade [where rt = rt0 and st = st1 and cid = "''1''" and flt = no_fault
      and row = ?ropa and others = "[]" and n = "''Ropa''" and z = 1] read found nf name
  have 2: "fst (delete_categorias_id rt0 no_fault ''1'' st1) = json 200 (JObj [(''ok'', JBool True)])"
    and 3: "tbl_categoria (snd (delete_categorias_id rt0 no_fault ''1'' st1))
          = filter (\<lambda>r. js_get r ''id'' \<noteq> JInt 1) (tbl_categoria st1)"
    and 4: "\<forall>i < length (tbl_producto st1).
                  js_get (tbl_producto (snd (delete_categorias_id rt0 no_fault ''1'' st1)) ! i) ''categoria'' =
                    (if pg_eq rt0 (js_get (tbl_producto st1 ! i) ''categoria'') (js_get ?ropa ''nombre'')
                     then JNull else js_get (tbl_producto st1 ! i) ''categoria'')"
    and 5: "res_status (fst (post_categorias rt0 no_fault [(''nombre'', JStr ''Ropa'')]
                        (snd (delete_categorias_id rt0 no_fault ''1'' st1)))) = 201"
    by blast+
  from delete_categoria_cascade [where rt = rt0 and st = st1 and cid = "''1''" and flt = ?flt
      and row = ?ropa and others = "[]" and z = 1] read found nf
  have 6: "fst (delete_categorias_id rt0 ?flt ''1'' st1) = json 200 (JObj [(''ok'', JBool True)])"
    and 7: "tbl_producto (snd (delete_categorias_id rt0 ?flt ''1'' st1)) = tbl_producto st1"
    by blast+
  from 4 prods have cleared: "js_get (tbl_producto (snd (delete_categorias_id rt0 no_fault ''1'' st1)) ! 0) ''categoria'' = JNull"
    by simp
  have digits: "''9'' \<noteq> [] \<and> list_all is_digit ''9'' \<and> int (dec_val ''9'') \<le> 2147483647"
    "int (dec_val ''9'') = 9"
    by (simp_all add: is_digit_def dec_val_def digit_val_def)
  from delete_categoria_cascade [where rt = rt0 and cid = "''9''"] digits
  have 8: "pg_int4 rt0 (JStr ''9'') = Inr (Some 9)"
    by simp
  from 0 1 2 3 cleared 5 6 7 8 prods show ?thesis by simp
qed

section \<open>Deleting a product, deleting the receipts of a user\<close>

lemma number_or_text_digits:
  "s \<noteq> [] \<Longrightarrow> list_all is_digit s \<Longrightarrow> int (dec_val s) \<le> 2147483647 \<Longrightarrow>
   number_or_text rt s = JNum (Fin (of_nat (dec_val s)))"
proof -
  assume a: "s \<noteq> []" "list_all is_digit s" "int (dec_val s) \<le> 2147483647"
  have "(2147483647::nat) \<le> 2 ^ 53" by simp
  with a(3) have "dec_val s \<le> 2 ^ 53" by linarith
  with a show ?thesis by (simp add: number_or_text_def StringToNumber_def)
qed

lemma delete_productos_read:
  "pg_int4 rt (JStr pid) = Inr (Some z) \<Longrightarrow> flt 0 = None \<Longrightarrow>
   delete_productos_id rt flt pid st =
     (json 200 (JObj [(''ok'', JBool True)]),
      st\<lparr>tbl_producto := filter (\<lambda>r. js_get r ''id'' \<noteq> JInt z) (tbl_producto st)\<rparr>)"
  by (simp add: delete_productos_id_def int_is_Some)

lemma delete_productos_unread:
  "pg_int4 rt (JStr pid) = Inl err \<Longrightarrow>
   res_status (fst (delete_productos_id rt flt pid st)) = 500 \<and> snd (delete_productos_id rt flt pid st) = st"
  by (simp add: delete_productos_id_def delete_productos_catch_def json_def split: option.splits)

lemma delete_boletas_read:
  "pg_int4 rt (number_or_text rt userId) = Inr (Some z) \<Longrightarrow> flt 0 = None \<Longrightarrow>
   delete_boletas_userId rt flt userId st =
     (json 200 (JObj [(''ok'', JBool True)]),
      st\<lparr>tbl_boleta := filter (\<lambda>r. js_get r ''user_id'' \<noteq> JInt z) (tbl_boleta st)\<rparr>)"
  by (simp add: delete_boletas_userId_def int_is_Some)

lemma delete_boletas_unread:
  "pg_int4 rt (number_or_text rt userId) = Inl err \<Longrightarrow>
   res_status (fst (delete_boletas_userId rt flt userId st)) = 500 \<and> snd (delete_boletas_userId rt flt userId st) = st"
  by (simp add: delete_boletas_userId_def json_def split: option.splits)

text \<open>
  Claim C8. \<open>DELETE /productos/:id\<close>, for every id that the \<open>SERIAL\<close> column reads as
  an integer (a text of decimal digits within 32 bits is one) and a store that executes the
  statement: the answer is \<open>{ok: true}\<close> with status 200 whether or not a product has the
  id, the rows with the id are deleted, and with no such row the store is unchanged.
  Likewise \<open>DELETE /boletas/:userId\<close>, for every userId whose parameter the \<open>INT\<close> column
  reads: all receipts of that user are deleted and the answer is \<open>{ok: true}\<close>, also when
  there is none. Neither handler looks at the table before answering: the response is the
  same for every content of the store. An id or a userId that the column does not read
  (a text with no digit, such as \<open>abc\<close>) is answered 500 and nothing is deleted.
\<close>

theorem deletes_ok_for_integer_keys:
  "(pg_int4 rt (JStr pid) = Inr (Some z) \<and> flt 0 = None \<longrightarrow>
      delete_productos_id rt flt pid st =
        (json 200 (JObj [(''ok'', JBool True)]),
         st\<lparr>tbl_producto := filter (\<lambda>r. js_get r ''id'' \<noteq> JInt z) (tbl_producto st)\<rparr>)
      \<and> ((\<forall>r \<in> set (tbl_producto st). js_get r ''id'' \<noteq> JInt z) \<longrightarrow>
            delete_productos_id rt flt pid st = (json 200 (JObj [(''ok'', JBool True)]), st)))
   \<and> (pid \<noteq> [] \<and> list_all is_digit pid \<and> int (dec_val pid) \<le> 2147483647 \<and> flt 0 = None \<longrightarrow>
        fst (delete_productos_id rt flt pid st) = json 200 (JObj [(''ok'', JBool True)])
        \<and> tbl_producto (snd (delete_productos_id rt flt pid st))
            = filter (\<lambda>r. js_get r ''id'' \<noteq> JInt (int (dec_val pid))) (tbl_producto st))
   \<and> (pg_int4 rt (JStr pid) = Inl err \<or> \<not> list_ex is_digit pid \<longrightarrow>
        res_status (fst (delete_productos_id rt flt pid st)) = 500
        \<and> snd (delete_productos_id rt flt pid st) = st)
   \<and> (pg_int4 rt (number_or_text rt userId) = Inr (Some z) \<and> flt 0 = None \<longrightarrow>
      delete_boletas_userId rt flt userId st =
        (json 200 (JObj [(''ok'', JBool True)]),
         st\<lparr>tbl_boleta := filter (\<lambda>r. js_get r ''user_id'' \<noteq> JInt z) (tbl_boleta st)\<rparr>)
      \<and> ((\<forall>r \<in> set (tbl_boleta st). js_get r ''user_id'' \<noteq> JInt z) \<longrightarrow>
            delete_boletas_userId rt flt userId st = (json 200 (JObj [(''ok'', JBool True)]), st)))
   \<and> (userId \<noteq> [] \<and> list_all is_digit userId \<and> int (dec_val userId) \<le> 2147483647 \<and> flt 0 = None \<longrightarrow>
        fst (delete_boletas_userId rt flt userId st) = json 200 (JObj [(''ok'', JBool True)])
        \<and> tbl_boleta (snd (delete_boletas_userId rt flt userId st))
            = filter (\<lambda>r. js_get r ''user_id'' \<noteq> JInt (int (dec_val userId))) (tbl_boleta st))
   \<and> (pg_int4 rt (number_or_text rt userId) = Inl err \<longrightarrow>
        res_status (fst (delete_boletas_userId rt flt userId st)) = 500
        \<and> snd (delete_boletas_userId rt flt userId st) = st)
   \<and> fst (delete_productos_id rt flt pid st) = fst (delete_productos_id rt flt pid st')
   \<and> fst (delete_boletas_userId rt flt userId st) = fst (delete_boletas_userId rt flt userId st')"
proof (intro conjI impI)
  assume a: "pg_int4 rt (JStr pid) = Inr (Some z) \<and> flt 0 = None"
  then show p: "delete_productos_id rt flt pid st =
        (json 200 (JObj [(''ok'', JBool True)]),
         st\<lparr>tbl_producto := filter (\<lambda>r. js_get r ''id'' \<noteq> JInt z) (tbl_producto st)\<rparr>)"
    by (simp add: delete_productos_read)
  assume "\<forall>r \<in> set (tbl_producto st). js_get r ''id'' \<noteq> JInt z"
  then have "filter (\<lambda>r. js_get r ''id'' \<noteq> JInt z) (tbl_producto st) = tbl_producto st"
    by (simp add: filter_id_conv)
  with p show "delete_productos_id rt flt pid st = (json 200 (JObj [(''ok'', JBool True)]), st)"
    by simp
next
  assume a: "pid \<noteq> [] \<and> list_all is_digit pid \<and> int (dec_val pid) \<le> 2147483647 \<and> flt 0 = None"
  then have "pg_int4 rt (JStr pid) = Inr (Some (int (dec_val pid)))" and "flt 0 = None"
    by (simp_all add: pg_int4_digits)
  from delete_productos_read [where flt = flt and st = st, OF this]
  show "fst (delete_productos_id rt flt pid st) = json 200 (JObj [(''ok'', JBool True)])"
    and "tbl_producto (snd (delete_productos_id rt flt pid st))
            = filter (\<lambda>r. js_get r ''id'' \<noteq> JInt (int (dec_val pid))) (tbl_producto st)"
    by simp_all
next
  assume "pg_int4 rt (JStr pid) = Inl err \<or> \<not> list_ex is_digit pid"
  then obtain e where e: "pg_int4 rt (JStr pid) = Inl e"
    using pg_int4_no_digit [of pid rt] by blast
  from delete_productos_unread [OF e]
  show "res_status (fst (delete_productos_id rt flt pid st)) = 500"
    and "snd (delete_productos_id rt flt pid st) = st"
    by simp_all
next
  assume a: "pg_int4 rt (number_or_text rt userId) = Inr (Some z) \<and> flt 0 = None"
  then show p: "delete_boletas_userId rt flt userId st =
        (json 200 (JObj [(''ok'', JBool True)]),
         st\<lparr>tbl_boleta := filter (\<lambda>r. js_get r ''user_id'' \<noteq> JInt z) (tbl_boleta st)\<rparr>)"
    by (simp add: delete_boletas_read)
  assume "\<forall>r \<in> set (tbl_boleta st). js_get r ''user_id'' \<noteq> JInt z"
  then have "filter (\<lambda>r. js_get r ''user_id'' \<noteq> JInt z) (tbl_boleta st) = tbl_boleta st"
    by (simp add: filter_id_conv)
  with p show "delete_boletas_userId rt flt userId st = (json 200 (JObj [(''ok'', JBool True)]), st)"
    by simp
next
  assume a: "userId \<noteq> [] \<and> list_all is_digit userId \<and> int (dec_val userId) \<le> 2147483647 \<and> flt 0 = None"
  then have "pg_int4 rt (number_or_text rt userId) = Inr (Some (int (dec_val userId)))" and "flt 0 = None"
    by (simp_all add: number_or_text_digits pg_int4_nat)
  from delete_boletas_read [where flt = flt and st = st, OF this]
  show "fst (delete_boletas_userId rt flt userId st) = json 200 (JObj [(''ok'', JBool True)])"
    and "tbl_boleta (snd (delete_boletas_userId rt flt userId st))
            = filter (\<lambda>r. js_get r ''user_id'' \<noteq> JInt (int (dec_val userId))) (tbl_boleta st)"
    by simp_all
next
  assume e: "pg_int4 rt (number_or_text rt userId) = Inl err"
  from delete_boletas_unread [OF e]
  show "res_status (fst (delete_boletas_userId rt flt userId st)) = 500"
    and "snd (delete_boletas_userId rt flt userId st) = st"
    by simp_all
next
  show "fst (delete_productos_id rt flt pid st) = fst (delete_productos_id rt flt pid st')"
    by (simp add: delete_productos_id_def split: option.splits sum.splits)
  show "fst (delete_boletas_userId rt flt userId st) = fst (delete_boletas_userId rt flt userId st')"
    by (simp add: delete_boletas_userId_def split: option.splits sum.splits)
qed

text \<open>
  Success for every id and every userId fails: with the path segment \<open>abc\<close> both
  handlers answer 500, although the store raises nothing of its own.
\<close>

theorem deletes_fail_on_text_counterexample:
  "res_status (fst (delete_productos_id rt0 no_fault ''abc'' st1)) = 500
   \<and> res_status (fst (delete_boletas_userId rt0 no_fault ''abc'' st1)) = 500"
  by (simp add: delete_productos_id_def delete_boletas_userId_def no_fault_def number_or_text_def
      pg_int4_def delete_productos_catch_def json_def StringToNumber_def is_digit_def rt0_def)

theorem deletes_ok_for_integer_keys_witness:
  "delete_productos_id rt0 no_fault ''1'' st1 = (json 200 (JObj [(''ok'', JBool True)]), st1\<lparr>tbl_producto := []\<rparr>)
   \<and> delete_productos_id rt0 no_fault ''7'' st1 = (json 200 (JObj [(''ok'', JBool True)]), st1)
   \<and> delete_boletas_userId rt0 no_fault ''1'' st1 = (json 200 (JObj [(''ok'', JBool True)]), st1\<lparr>tbl_boleta := []\<rparr>)
   \<and> delete_boletas_userId rt0 no_fault ''7'' st1 = (json 200 (JObj [(''ok'', JBool True)]), st1)
   \<and> res_status (fst (delete_productos_id rt0 no_fault ''abc'' st1)) = 500
   \<and> res_status (fst (delete_boletas_userId rt0 no_fault ''abc'' st1)) = 500
   \<and> fst (delete_productos_id rt0 no_fault ''7'' st1) = json 200 (JObj [(''ok'', JBool True)])
   \<and> fst (delete_boletas_userId rt0 no_fault ''7'' st1) = json 200 (JObj [(''ok'', JBool True)])"
proof -
  have one: "pg_int4 rt0 (JStr ''1'') = Inr (Some 1)" "pg_int4 rt0 (number_or_text rt0 ''1'') = Inr (Some 1)"
    and seven: "pg_int4 rt0 (JStr ''7'') = Inr (Some 7)" "pg_int4 rt0 (number_or_text rt0 ''7'') = Inr (Some 7)"
    and abc: "\<not> list_ex is_digit ''abc''"
    by (simp_all add: pg_int4_def number_or_text_def StringToNumber_def is_digit_def dec_val_def digit_val_def)
  have nf: "no_fault 0 = None"
    by (simp add: no_fault_def)
  have none: "\<forall>r \<in> set (tbl_producto st1). js_get r ''id'' \<noteq> JInt 7"
    "\<forall>r \<in> set (tbl_boleta st1). js_get r ''user_id'' \<noteq> JInt 7"
    by (simp_all add: eval_defs)
  have all: "filter (\<lambda>r. js_get r ''id'' \<noteq> JInt 1) (tbl_producto st1) = []"
    "filter (\<lambda>r. js_get r ''user_id'' \<noteq> JInt 1) (tbl_boleta st1) = []"
    by (simp_all add: eval_defs)
  from deletes_ok_for_integer_keys [where rt = rt0 and pid = "''1''" and userId = "''1''" and z = 1
      and st = st1 and flt = no_fault] one all nf
  have 1: "delete_productos_id rt0 no_fault ''1'' st1 = (json 200 (JObj [(''ok'', JBool True)]), st1\<lparr>tbl_producto := []\<rparr>)"
    and 2: "delete_boletas_userId rt0 no_fault ''1'' st1 = (json 200 (JObj [(''ok'', JBool True)]), st1\<lparr>tbl_boleta := []\<rparr>)"
    by simp_all
  from deletes_ok_for_integer_keys [where rt = rt0 and pid = "''7''" and userId = "''7''" and z = 7
      and st = st1 and flt = no_fault] seven none nf
  have 3: "delete_productos_id rt0 no_fault ''7'' st1 = (json 200 (JObj [(''ok'', JBool True)]), st1)"
    and 4: "delete_boletas_userId rt0 no_fault ''7'' st1 = (json 200 (JObj [(''ok'', JBool True)]), st1)"
    by blast+
  from deletes_ok_for_integer_keys [where rt = rt0 and pid = "''abc''" and st = st1 and flt = no_fault] abc
  have 5: "res_status (fst (delete_productos_id rt0 no_fault ''abc'' st1)) = 500"
    by blast
  have unread: "pg_int4 rt0 (number_or_text rt0 ''abc'') = Inl invalid_integer"
    by (simp add: pg_int4_def number_or_text_def StringToNumber_def is_digit_def rt0_def)
  from deletes_ok_for_integer_keys [where rt = rt0 and userId = "''abc''" and st = st1 and flt = no_fault
      and err = invalid_integer] unread
  have 6: "res_status (fst (delete_boletas_userId rt0 no_fault ''abc'' st1)) = 500"
    by blast
  have digits: "''7'' \<noteq> [] \<and> list_all is_digit ''7'' \<and> int (dec_val ''7'') \<le> 2147483647 \<and> no_fault 0 = None"
    by (simp add: is_digit_def dec_val_def digit_val_def no_fault_def)
  from deletes_ok_for_integer_keys [where rt = rt0 and pid = "''7''" and userId = "''7''" and st = st1
      and flt = no_fault] digits
  have 7: "fst (delete_productos_id rt0 no_fault ''7'' st1) = json 200 (JObj [(''ok'', JBool True)])"
    and 8: "fst (delete_boletas_userId rt0 no_fault ''7'' st1) = json 200 (JObj [(''ok'', JBool True)])"
    by blast+
  from 1 2 3 4 5 6 7 8 show ?thesis
    apply (intro conjI)
    apply assumption+
    done
qed

end
